theory Spec2Isabelle
  imports Complex_Main
begin

section \<open>Exceptions and outcomes\<close>

text \<open>
  An \<^verbatim>\<open>except\<close> clause catches an exception when the class of the exception is the
  class named in the clause or derives from it. A class is its name and its base classes;
  an exception value carries its class and its message, and equal values stand for the
  same exception object.
\<close>

datatype py_class = Class (class_name: string) (bases: "py_class list")

datatype exc = Exc (exc_class: py_class) (exc_msg: string)

datatype 'a outcome = Return 'a | Raise exc

fun issubclass :: "py_class \<Rightarrow> py_class \<Rightarrow> bool" where
  "issubclass (Class n bs) d = (Class n bs = d \<or> list_ex (\<lambda>b. issubclass b d) bs)"

definition isinstance :: "exc \<Rightarrow> py_class \<Rightarrow> bool" where
  "isinstance e c = issubclass (exc_class e) c"

text \<open>The built-in classes the adapter meets.\<close>

definition BaseException :: py_class where
  "BaseException = Class ''BaseException'' []"

definition Exception :: py_class where
  "Exception = Class ''Exception'' [BaseException]"

definition RuntimeError :: py_class where
  "RuntimeError = Class ''RuntimeError'' [Exception]"

definition ValueError :: py_class where
  "ValueError = Class ''ValueError'' [Exception]"

definition OSError :: py_class where
  "OSError = Class ''OSError'' [Exception]"

definition TimeoutError :: py_class where
  "TimeoutError = Class ''TimeoutError'' [OSError]"

definition CancelledError :: py_class where
  "CancelledError = Class ''CancelledError'' [BaseException]"

text \<open>
  The four classes imported from \<^verbatim>\<open>web3.exceptions\<close> (lines 10-15); each derives from
  the library's \<^verbatim>\<open>Web3Exception\<close>.
\<close>

definition Web3Exception :: py_class where
  "Web3Exception = Class ''Web3Exception'' [Exception]"

definition ProviderConnectionError :: py_class where
  "ProviderConnectionError = Class ''ProviderConnectionError'' [Web3Exception]"

definition TimeExhausted :: py_class where
  "TimeExhausted = Class ''TimeExhausted'' [Web3Exception]"

definition BlockNotFound :: py_class where
  "BlockNotFound = Class ''BlockNotFound'' [Web3Exception]"

definition TransactionNotFound :: py_class where
  "TransactionNotFound = Class ''TransactionNotFound'' [Web3Exception]"

text \<open>The tuple of the first \<^verbatim>\<open>except\<close> clause of \<^verbatim>\<open>wrapper\<close> (lines 39-44).\<close>

definition caught_web3 :: "exc \<Rightarrow> bool" where
  "caught_web3 e =
     list_ex (isinstance e)
       [ProviderConnectionError, TimeExhausted, BlockNotFound, TransactionNotFound]"

text \<open>The second clause, \<^verbatim>\<open>except Exception\<close> (line 63).\<close>

definition caught_Exception :: "exc \<Rightarrow> bool" where
  "caught_Exception e = isinstance e Exception"

section \<open>Log records\<close>

text \<open>
  A log line is kept as its level and its fields, not as the formatted string: the
  f-strings of the source only lay these fields out.
\<close>

datatype level = INFO | WARNING | ERROR

datatype log_record =
    Web3ErrorOnAttempt string nat exc real
  | RetryTimeoutExceeded string int
  | NonWeb3Error string exc
  | UsingCached string
  | CreatingNew string
  | InitializingClient string

section \<open>The adapter object\<close>

text \<open>
  The attributes \<^verbatim>\<open>__init__\<close> assigns. The transport client \<^verbatim>\<open>w3\<close> is a reference
  (the index of the client among the clients constructed so far).
\<close>

record adapter =
  rpc_url :: string
  request_timeout :: int
  w3 :: nat

section \<open>The retry wrapper\<close>

text \<open>
  What \<^verbatim>\<open>wrapper\<close> does to the outside is a clock it reads with \<^verbatim>\<open>time.time()\<close>, the
  unit of work it awaits, the logger and \<^verbatim>\<open>asyncio.sleep\<close>. The world holds the clock,
  the state the unit of work acts on, and the trace of what the wrapper did, in order.
\<close>

datatype 'a event = Called "'a outcome" | Logged level log_record | Slept real

record ('a, 's) world =
  clock :: real
  ext :: 's
  trace :: "'a event list"

text \<open>
  A unit of work (\<^verbatim>\<open>func(self, *args, **kwargs)\<close> with its arguments bound) reads its own
  state and the clock, and gives its outcome, its new state and the time it took.
\<close>

type_synonym ('a, 's) work = "adapter \<Rightarrow> 's \<Rightarrow> real \<Rightarrow> 'a outcome \<times> 's \<times> real"

definition time_time :: "('a, 's) world \<Rightarrow> real" where
  "time_time w = clock w"

definition await_func ::
  "('a, 's) work \<Rightarrow> adapter \<Rightarrow> ('a, 's) world \<Rightarrow> 'a outcome \<times> ('a, 's) world" where
  "await_func func self w =
     (case func self (ext w) (clock w) of
        (r, s', dt) \<Rightarrow>
          (r, w\<lparr>clock := clock w + dt, ext := s', trace := trace w @ [Called r]\<rparr>))"

definition logger_warning :: "log_record \<Rightarrow> ('a, 's) world \<Rightarrow> ('a, 's) world" where
  "logger_warning r w = w\<lparr>trace := trace w @ [Logged WARNING r]\<rparr>"

definition logger_error :: "log_record \<Rightarrow> ('a, 's) world \<Rightarrow> ('a, 's) world" where
  "logger_error r w = w\<lparr>trace := trace w @ [Logged ERROR r]\<rparr>"

definition asyncio_sleep :: "real \<Rightarrow> ('a, 's) world \<Rightarrow> ('a, 's) world" where
  "asyncio_sleep d w = w\<lparr>clock := clock w + d, trace := trace w @ [Slept d]\<rparr>"

text \<open>
  One pass through the body of \<^verbatim>\<open>while True\<close> (lines 36-67): either the wrapper is done,
  with a value returned or an exception raised, or it goes round again.
\<close>

datatype ('a, 's) iteration =
    Done "'a outcome" "('a, 's) world"
  | Again "('a, 's) world"

definition wrapper_iteration ::
  "int \<Rightarrow> ('a, 's) work \<Rightarrow> adapter \<Rightarrow> real \<Rightarrow> nat \<Rightarrow> ('a, 's) world \<Rightarrow> ('a, 's) iteration" where
  "wrapper_iteration max_seconds func self start attempt w =
     (case await_func func self w of
        (Return v, w1) \<Rightarrow> Done (Return v) w1
      | (Raise exc, w1) \<Rightarrow>
          if caught_web3 exc then
            (let elapsed = time_time w1 - start;
                 remaining = real_of_int max_seconds - elapsed;
                 w2 = logger_warning
                        (Web3ErrorOnAttempt (rpc_url self) attempt exc remaining) w1
             in if remaining \<le> 0
                then Done (Raise exc)
                       (logger_error (RetryTimeoutExceeded (rpc_url self) max_seconds) w2)
                else Again (asyncio_sleep 1 w2))
          else if caught_Exception exc
          then Done (Raise exc) (logger_error (NonWeb3Error (rpc_url self) exc) w1)
          else Done (Raise exc) w1)"

text \<open>
  The loop itself. Nothing in the source bounds it but the clock, so it is a partial
  function: \<open>None\<close> is a wrapper that never returns.
\<close>

partial_function (option) wrapper_loop ::
  "int \<Rightarrow> ('a, 's) work \<Rightarrow> adapter \<Rightarrow> real \<Rightarrow> nat \<Rightarrow> ('a, 's) world
     \<Rightarrow> ('a outcome \<times> ('a, 's) world) option" where
  "wrapper_loop max_seconds func self start attempt w =
     (case wrapper_iteration max_seconds func self start attempt w of
        Done r w' \<Rightarrow> Some (r, w')
      | Again w' \<Rightarrow> wrapper_loop max_seconds func self start (attempt + 1) w')"

text \<open>
  \<^verbatim>\<open>retry_web3(max_seconds)(func)\<close>: the decorated method. It reads the clock once
  (\<^verbatim>\<open>start\<close>), sets \<^verbatim>\<open>attempt = 1\<close> and enters the loop.
\<close>

definition retry_web3 ::
  "int \<Rightarrow> ('a, 's) work \<Rightarrow> adapter \<Rightarrow> ('a, 's) world \<Rightarrow> ('a outcome \<times> ('a, 's) world) option" where
  "retry_web3 max_seconds func self w = wrapper_loop max_seconds func self (time_time w) 1 w"

declare wrapper_loop.simps [code]

subsection \<open>Reading the trace\<close>

text \<open>The outcomes of the attempts made, and the sleeps taken, in order.\<close>

fun outcomes :: "'a event list \<Rightarrow> 'a outcome list" where
  "outcomes [] = []"
| "outcomes (Called r # es) = r # outcomes es"
| "outcomes (Logged l r # es) = outcomes es"
| "outcomes (Slept d # es) = outcomes es"

fun sleeps :: "'a event list \<Rightarrow> real list" where
  "sleeps [] = []"
| "sleeps (Called r # es) = sleeps es"
| "sleeps (Logged l r # es) = sleeps es"
| "sleeps (Slept d # es) = d # sleeps es"

definition attempts :: "'a event list \<Rightarrow> nat" where
  "attempts tr = length (outcomes tr)"

text \<open>
  What a unit of work does when the wrapper runs it again and again: its state and the
  time before its \<open>k\<close>-th attempt (counted from 0), each earlier attempt having taken
  its own time and been followed by the sleep of one second (line 60), and the outcome
  of that attempt.
\<close>

fun before_attempt :: "('a, 's) work \<Rightarrow> adapter \<Rightarrow> 's \<Rightarrow> real \<Rightarrow> nat \<Rightarrow> 's \<times> real" where
  "before_attempt func self s t 0 = (s, t)"
| "before_attempt func self s t (Suc k) =
     (case func self s t of (r, s', dt) \<Rightarrow> before_attempt func self s' (t + dt + 1) k)"

definition attempt_outcome :: "('a, 's) work \<Rightarrow> adapter \<Rightarrow> 's \<Rightarrow> real \<Rightarrow> nat \<Rightarrow> 'a outcome" where
  "attempt_outcome func self s t k =
     (case before_attempt func self s t k of (s', t') \<Rightarrow> fst (func self s' t'))"

subsection \<open>Units of work for concrete runs\<close>

text \<open>
  A unit of work that takes no time and whose \<open>k\<close>-th attempt (counted from 0) has the
  outcome \<open>f k\<close>; its state is the number of attempts made so far.
\<close>

definition scripted :: "(nat \<Rightarrow> 'a outcome) \<Rightarrow> ('a, nat) work" where
  "scripted f self k t = (f k, Suc k, 0)"

definition refused :: exc where
  "refused = Exc ProviderConnectionError ''connection refused''"

definition not_indexed :: exc where
  "not_indexed = Exc BlockNotFound ''block not indexed yet''"

definition bad_value :: exc where
  "bad_value = Exc ValueError ''bad value''"

definition node :: adapter where
  "node = \<lparr>rpc_url = ''http://node'', request_timeout = 10, w3 = 0\<rparr>"

definition w0 :: "('a, nat) world" where
  "w0 = \<lparr>clock = 100, ext = 0, trace = []\<rparr>"

definition always_refused :: "('a, nat) work" where
  "always_refused = scripted (\<lambda>k. Raise refused)"

definition refused_then_not_indexed :: "('a, nat) work" where
  "refused_then_not_indexed = scripted (\<lambda>k. if k < 3 then Raise refused else Raise not_indexed)"

definition refused_twice_then :: "'a \<Rightarrow> ('a, nat) work" where
  "refused_twice_then v = scripted (\<lambda>k. if k < 2 then Raise refused else Return v)"

definition always_bad_value :: "('a, nat) work" where
  "always_bad_value = scripted (\<lambda>k. Raise bad_value)"

text \<open>
  An error of a class of the caller's own that derives from \<^verbatim>\<open>ProviderConnectionError\<close>.
\<close>

definition flaky :: exc where
  "flaky = Exc (Class ''FlakyProviderError'' [ProviderConnectionError]) ''flaky provider''"

definition always_flaky :: "('a, nat) work" where
  "always_flaky = scripted (\<lambda>k. Raise flaky)"

text \<open>
  A request that runs into the request timeout of the handle: the attempt takes that
  long and ends in Python's own \<^verbatim>\<open>TimeoutError\<close>, which is none of the web3 classes.
\<close>

definition timed_out :: exc where
  "timed_out = Exc TimeoutError ''request timed out''"

definition request_times_out :: "('a, nat) work" where
  "request_times_out self k t = (Raise timed_out, Suc k, real_of_int (request_timeout self))"

section \<open>The registry of adapters\<close>

text \<open>
  The transport client built by \<^verbatim>\<open>_create_client\<close>: an \<^verbatim>\<open>AsyncWeb3\<close> over an
  \<^verbatim>\<open>AsyncHTTPProvider\<close> for the url, with the request timeout, and the middleware
  injected at layer 0.
\<close>

record client =
  endpoint_uri :: string
  request_kwargs_timeout :: int
  middleware_onion :: "string list"

text \<open>
  The web3 library is not part of the repository. Whether building the client raises is a
  parameter of the model: the \<open>k\<close>-th construction (counted from 0), for a url and a
  timeout, raises the exception given or succeeds.
\<close>

type_synonym web3_ctor = "nat \<Rightarrow> string \<Rightarrow> int \<Rightarrow> exc option"

text \<open>
  The state the class works on: the class attribute \<^verbatim>\<open>_instances\<close>, the adapter objects
  and the clients that exist (an object's identity is its index), the number of client
  constructions attempted, and the log.
\<close>

record state =
  instances :: "string \<rightharpoonup> nat"
  adapters :: "adapter list"
  clients :: "client list"
  ctor_calls :: nat
  log_lines :: "(level \<times> log_record) list"

definition initial_state :: state where
  "initial_state =
     \<lparr>instances = Map.empty, adapters = [], clients = [], ctor_calls = 0, log_lines = []\<rparr>"

definition logger_info :: "log_record \<Rightarrow> state \<Rightarrow> state" where
  "logger_info r s = s\<lparr>log_lines := log_lines s @ [(INFO, r)]\<rparr>"

text \<open>\<^verbatim>\<open>_create_client\<close> (lines 111-122), for the url and timeout already assigned to \<^verbatim>\<open>self\<close>.\<close>

definition create_client :: "web3_ctor \<Rightarrow> string \<Rightarrow> int \<Rightarrow> state \<Rightarrow> (exc + nat) \<times> state" where
  "create_client F url t s =
     (let s1 = logger_info (InitializingClient url) s;
          s2 = s1\<lparr>ctor_calls := Suc (ctor_calls s1)\<rparr>
      in case F (ctor_calls s1) url t of
           Some e \<Rightarrow> (Inl e, s2)
         | None \<Rightarrow>
             (Inr (length (clients s2)),
              s2\<lparr>clients := clients s2 @
                    [\<lparr>endpoint_uri = url, request_kwargs_timeout = t,
                      middleware_onion = [''ExtraDataToPOAMiddleware'']\<rparr>]\<rparr>))"

text \<open>
  \<^verbatim>\<open>AsyncWeb3Adapter(rpc_url, request_timeout, _internal)\<close>: \<^verbatim>\<open>__init__\<close> (lines 98-109)
  on a new object. An object whose \<^verbatim>\<open>__init__\<close> raises is never handed to anyone, so the
  object enters the state when \<^verbatim>\<open>__init__\<close> has assigned its three attributes.
\<close>

definition AsyncWeb3Adapter_init ::
  "web3_ctor \<Rightarrow> string \<Rightarrow> int \<Rightarrow> bool \<Rightarrow> state \<Rightarrow> (exc + nat) \<times> state" where
  "AsyncWeb3Adapter_init F url t internal s =
     (if \<not> internal
      then (Inl (Exc RuntimeError ''Use AsyncWeb3Adapter.get_instance()''), s)
      else case create_client F url t s of
             (Inl e, s1) \<Rightarrow> (Inl e, s1)
           | (Inr c, s1) \<Rightarrow>
               (Inr (length (adapters s1)),
                s1\<lparr>adapters := adapters s1 @
                      [\<lparr>rpc_url = url, request_timeout = t, w3 = c\<rparr>]\<rparr>))"

text \<open>\<^verbatim>\<open>get_instance\<close> (lines 77-96): the body run under \<^verbatim>\<open>cls._lock\<close>.\<close>

definition get_instance :: "web3_ctor \<Rightarrow> string \<Rightarrow> int \<Rightarrow> state \<Rightarrow> (exc + nat) \<times> state" where
  "get_instance F url t s =
     (case instances s url of
        Some r \<Rightarrow> (Inr r, logger_info (UsingCached url) s)
      | None \<Rightarrow>
          (case AsyncWeb3Adapter_init F url t True (logger_info (CreatingNew url) s) of
             (Inl e, s1) \<Rightarrow> (Inl e, s1)
           | (Inr r, s1) \<Rightarrow> (Inr r, s1\<lparr>instances := (instances s1)(url \<mapsto> r)\<rparr>)))"

text \<open>
  A sequence of calls of \<^verbatim>\<open>get_instance\<close>, one after the other as the lock orders them,
  each with its url and timeout; the results are kept in the order of the calls.
\<close>

fun get_instance_calls ::
  "web3_ctor \<Rightarrow> (string \<times> int) list \<Rightarrow> state \<Rightarrow> (exc + nat) list \<times> state" where
  "get_instance_calls F [] s = ([], s)"
| "get_instance_calls F ((url, t) # cs) s =
     (case get_instance F url t s of
        (r, s1) \<Rightarrow> (case get_instance_calls F cs s1 of (rs, s2) \<Rightarrow> (r # rs, s2)))"

text \<open>How many of the clients built so far are for a url.\<close>

definition clients_for :: "string \<Rightarrow> state \<Rightarrow> nat" where
  "clients_for url s = length (filter (\<lambda>c. endpoint_uri c = url) (clients s))"

definition no_faults :: web3_ctor where
  "no_faults k url t = None"

definition first_fails :: web3_ctor where
  "first_fails k url t =
     (if k = 0 then Some (Exc ValueError ''bad endpoint'') else None)"

definition node_registered :: state where
  "node_registered = snd (get_instance no_faults ''http://node'' 10 initial_state)"

text \<open>
  The state after \<^verbatim>\<open>get_instance\<close> for \<^verbatim>\<open>http://node\<close>, for \<^verbatim>\<open>http://other\<close> and
  for \<^verbatim>\<open>http://node\<close> again.
\<close>

definition three_calls_state :: state where
  "three_calls_state =
     \<lparr>instances = [''http://node'' \<mapsto> 0, ''http://other'' \<mapsto> 1],
      adapters =
        [\<lparr>rpc_url = ''http://node'', request_timeout = 10, w3 = 0\<rparr>,
         \<lparr>rpc_url = ''http://other'', request_timeout = 5, w3 = 1\<rparr>],
      clients =
        [\<lparr>endpoint_uri = ''http://node'', request_kwargs_timeout = 10,
          middleware_onion = [''ExtraDataToPOAMiddleware'']\<rparr>,
         \<lparr>endpoint_uri = ''http://other'', request_kwargs_timeout = 5,
          middleware_onion = [''ExtraDataToPOAMiddleware'']\<rparr>],
      ctor_calls = 2,
      log_lines =
        [(INFO, CreatingNew ''http://node''), (INFO, InitializingClient ''http://node''),
         (INFO, CreatingNew ''http://other''), (INFO, InitializingClient ''http://other''),
         (INFO, UsingCached ''http://node'')]\<rparr>"

section \<open>Properties of the retry wrapper\<close>

lemma outcomes_append [simp]: "outcomes (xs @ ys) = outcomes xs @ outcomes ys"
  by (induction xs rule: outcomes.induct) simp_all

lemma sleeps_append [simp]: "sleeps (xs @ ys) = sleeps xs @ sleeps ys"
  by (induction xs rule: sleeps.induct) simp_all

lemmas class_defs =
  BaseException_def Exception_def RuntimeError_def ValueError_def OSError_def
  TimeoutError_def CancelledError_def Web3Exception_def ProviderConnectionError_def
  TimeExhausted_def BlockNotFound_def TransactionNotFound_def

lemma caught_refused: "caught_web3 refused"
  by (simp add: caught_web3_def isinstance_def refused_def class_defs)

lemma caught_not_indexed: "caught_web3 not_indexed"
  by (simp add: caught_web3_def isinstance_def not_indexed_def class_defs)

lemma bad_value_not_caught: "\<not> caught_web3 bad_value"
  by (simp add: caught_web3_def isinstance_def bad_value_def class_defs)

lemma bad_value_Exception: "caught_Exception bad_value"
  by (simp add: caught_Exception_def isinstance_def bad_value_def class_defs)

lemma not_indexed_not_refused: "not_indexed \<noteq> refused"
  by (simp add: not_indexed_def refused_def class_defs)

lemma flaky_caught: "caught_web3 flaky"
  by (simp add: caught_web3_def isinstance_def flaky_def class_defs)

lemma timed_out_not_caught: "\<not> caught_web3 timed_out"
  by (simp add: caught_web3_def isinstance_def timed_out_def class_defs)

lemma timed_out_Exception: "caught_Exception timed_out"
  by (simp add: caught_Exception_def isinstance_def timed_out_def class_defs)

lemma caught_web3_iff:
  "caught_web3 e \<longleftrightarrow>
   isinstance e ProviderConnectionError \<or> isinstance e TimeExhausted \<or>
   isinstance e BlockNotFound \<or> isinstance e TransactionNotFound"
  by (simp add: caught_web3_def)

lemmas world_ops =
  await_func_def time_time_def logger_warning_def logger_error_def asyncio_sleep_def

subsection \<open>One iteration, by what the attempt does\<close>

lemma wrapper_loop_Done:
  "wrapper_iteration B func self start n w = Done r w' \<Longrightarrow>
   wrapper_loop B func self start n w = Some (r, w')"
  by (subst wrapper_loop.simps) simp

lemma wrapper_loop_Again:
  "wrapper_iteration B func self start n w = Again w' \<Longrightarrow>
   wrapper_loop B func self start n w = wrapper_loop B func self start (n + 1) w'"
  by (subst wrapper_loop.simps) simp

lemma iteration_Return:
  "func self (ext w) (clock w) = (Return v, s', dt) \<Longrightarrow>
   wrapper_iteration B func self start n w =
     Done (Return v)
       (w\<lparr>clock := clock w + dt, ext := s', trace := trace w @ [Called (Return v)]\<rparr>)"
  by (simp add: wrapper_iteration_def world_ops)

lemma iteration_fatal:
  "func self (ext w) (clock w) = (Raise e, s', dt) \<Longrightarrow> \<not> caught_web3 e \<Longrightarrow>
   wrapper_iteration B func self start n w =
     Done (Raise e)
       (w\<lparr>clock := clock w + dt, ext := s',
          trace := trace w @ Called (Raise e) #
            (if caught_Exception e then [Logged ERROR (NonWeb3Error (rpc_url self) e)]
             else [])\<rparr>)"
  by (simp add: wrapper_iteration_def world_ops)

lemma iteration_exhausted:
  "func self (ext w) (clock w) = (Raise e, s', dt) \<Longrightarrow> caught_web3 e \<Longrightarrow>
   real_of_int B - (clock w + dt - start) \<le> 0 \<Longrightarrow>
   wrapper_iteration B func self start n w =
     Done (Raise e)
       (w\<lparr>clock := clock w + dt, ext := s',
          trace := trace w @
            [Called (Raise e),
             Logged WARNING (Web3ErrorOnAttempt (rpc_url self) n e
               (real_of_int B - (clock w + dt - start))),
             Logged ERROR (RetryTimeoutExceeded (rpc_url self) B)]\<rparr>)"
  by (simp add: wrapper_iteration_def world_ops Let_def)

lemma iteration_retry:
  "func self (ext w) (clock w) = (Raise e, s', dt) \<Longrightarrow> caught_web3 e \<Longrightarrow>
   0 < real_of_int B - (clock w + dt - start) \<Longrightarrow>
   wrapper_iteration B func self start n w =
     Again
       (w\<lparr>clock := clock w + dt + 1, ext := s',
          trace := trace w @
            [Called (Raise e),
             Logged WARNING (Web3ErrorOnAttempt (rpc_url self) n e
               (real_of_int B - (clock w + dt - start))),
             Slept 1]\<rparr>)"
  by (simp add: wrapper_iteration_def world_ops Let_def)

lemma iteration_cases:
  obtains (ret) v s' dt where "func self (ext w) (clock w) = (Return v, s', dt)"
  | (fatal) e s' dt where "func self (ext w) (clock w) = (Raise e, s', dt)" "\<not> caught_web3 e"
  | (exhausted) e s' dt where "func self (ext w) (clock w) = (Raise e, s', dt)" "caught_web3 e"
      "real_of_int B - (clock w + dt - start) \<le> 0"
  | (retry) e s' dt where "func self (ext w) (clock w) = (Raise e, s', dt)" "caught_web3 e"
      "0 < real_of_int B - (clock w + dt - start)"
proof -
  obtain r s' dt where f: "func self (ext w) (clock w) = (r, s', dt)"
    by (cases "func self (ext w) (clock w)") auto
  show thesis
  proof (cases r)
    case (Return v)
    with f ret show ?thesis by blast
  next
    case (Raise e)
    show ?thesis
    proof (cases "caught_web3 e")
      case False
      with f Raise fatal show ?thesis by blast
    next
      case True
      show ?thesis
      proof (cases "real_of_int B - (clock w + dt - start) \<le> 0")
        case True
        with f Raise \<open>caught_web3 e\<close> exhausted show ?thesis by blast
      next
        case False
        then have "0 < real_of_int B - (clock w + dt - start)" by simp
        with f Raise \<open>caught_web3 e\<close> retry show ?thesis by blast
      qed
    qed
  qed
qed

subsection \<open>The whole run\<close>

text \<open>
  Whatever the loop returns is the outcome of the last attempt it made, and a run that
  ends with the line of the exhausted budget ends on a caught web3 error, with nothing
  left of the budget.
\<close>

lemma wrapper_loop_last_outcome:
  assumes "wrapper_loop B func self start n w = Some y"
  shows "\<exists>tr. trace (snd y) = trace w @ tr \<and> outcomes tr \<noteq> [] \<and> last (outcomes tr) = fst y \<and>
           tr \<noteq> [] \<and>
           (last tr = Logged ERROR (RetryTimeoutExceeded (rpc_url self) B) \<longrightarrow>
              (\<exists>e. fst y = Raise e \<and> caught_web3 e \<and>
                   real_of_int B - (clock (snd y) - start) \<le> 0))"
  using assms
proof (induction rule: wrapper_loop.raw_induct[rotated 1, consumes 1, case_names step])
  case (step loop B func self start n w y)
  show ?case
  proof (cases rule: iteration_cases[where func=func and self=self and w=w and B=B and start=start])
    case (ret v s' dt)
    with step(2) show ?thesis
      by (auto simp: iteration_Return)
  next
    case (fatal e s' dt)
    with step(2) show ?thesis
      by (auto simp: iteration_fatal)
  next
    case (exhausted e s' dt)
    with step(2) show ?thesis
      by (auto simp: iteration_exhausted)
  next
    case (retry e s' dt)
    let ?pre = "[Called (Raise e),
             Logged WARNING (Web3ErrorOnAttempt (rpc_url self) n e
               (real_of_int B - (clock w + dt - start))),
             Slept 1]"
    let ?w1 = "w\<lparr>clock := clock w + dt + 1, ext := s', trace := trace w @ ?pre\<rparr>"
    from step(2) retry have "loop B func self start (n + 1) ?w1 = Some y"
      by (simp add: iteration_retry)
    from step(1)[OF this] obtain tr where tr:
      "trace (snd y) = trace ?w1 @ tr" "outcomes tr \<noteq> []" "last (outcomes tr) = fst y"
      "tr \<noteq> []"
      "last tr = Logged ERROR (RetryTimeoutExceeded (rpc_url self) B) \<longrightarrow>
         (\<exists>e. fst y = Raise e \<and> caught_web3 e \<and> real_of_int B - (clock (snd y) - start) \<le> 0)"
      by blast
    show ?thesis
      using tr by (intro exI[of _ "?pre @ tr"]) simp
  qed
qed

subsection \<open>A fatal error\<close>

text \<open>
  C3. If the first attempt raises an error that the first \<^verbatim>\<open>except\<close> clause does not
  catch, the wrapper raises that same error after this one attempt: the trace gains the
  attempt and, for an \<^verbatim>\<open>Exception\<close>, the error line, and no sleep.
\<close>

theorem fatal_error_one_attempt:
  assumes "func self (ext w) (clock w) = (Raise e, s', dt)" and "\<not> caught_web3 e"
  shows "\<exists>w'. retry_web3 B func self w = Some (Raise e, w') \<and>
           trace w' = trace w @ Called (Raise e) #
             (if caught_Exception e then [Logged ERROR (NonWeb3Error (rpc_url self) e)]
              else []) \<and>
           attempts (trace w') = attempts (trace w) + 1 \<and>
           sleeps (trace w') = sleeps (trace w) \<and>
           clock w' = clock w + dt \<and> ext w' = s'"
proof -
  have "wrapper_iteration B func self (time_time w) 1 w =
     Done (Raise e)
       (w\<lparr>clock := clock w + dt, ext := s',
          trace := trace w @ Called (Raise e) #
            (if caught_Exception e then [Logged ERROR (NonWeb3Error (rpc_url self) e)]
             else [])\<rparr>)"
    using assms by (rule iteration_fatal)
  then have "retry_web3 B func self w =
     Some (Raise e,
       w\<lparr>clock := clock w + dt, ext := s',
          trace := trace w @ Called (Raise e) #
            (if caught_Exception e then [Logged ERROR (NonWeb3Error (rpc_url self) e)]
             else [])\<rparr>)"
    unfolding retry_web3_def by (rule wrapper_loop_Done)
  then show ?thesis
    by (simp add: attempts_def)
qed

theorem fatal_error_one_attempt_witness:
  "always_bad_value node (ext (w0 :: (int, nat) world)) (clock (w0 :: (int, nat) world)) =
     (Raise bad_value, 1, 0) \<and>
   \<not> caught_web3 bad_value \<and>
   (\<exists>w'. retry_web3 30 always_bad_value node (w0 :: (int, nat) world) = Some (Raise bad_value, w') \<and>
      trace w' = [Called (Raise bad_value), Logged ERROR (NonWeb3Error ''http://node'' bad_value)] \<and>
      attempts (trace w') = 1 \<and> sleeps (trace w') = [])"
proof -
  have f: "always_bad_value node (ext (w0 :: (int, nat) world)) (clock (w0 :: (int, nat) world)) =
     (Raise bad_value, 1, 0)"
    by (simp add: always_bad_value_def scripted_def w0_def)
  have c: "\<not> caught_web3 bad_value"
    by (rule bad_value_not_caught)
  from fatal_error_one_attempt [where func = always_bad_value and self = node and w = w0
      and B = 30, OF f c]
  obtain w' :: "(int, nat) world" where
    r: "retry_web3 30 always_bad_value node w0 = Some (Raise bad_value, w')" and
    t: "trace w' = trace (w0 :: (int, nat) world) @ Called (Raise bad_value) #
             (if caught_Exception bad_value
              then [Logged ERROR (NonWeb3Error (rpc_url node) bad_value)] else [])" and
    a: "attempts (trace w') = attempts (trace (w0 :: (int, nat) world)) + 1" and
    s: "sleeps (trace w') = sleeps (trace (w0 :: (int, nat) world))"
    by blast
  have "trace w' =
      [Called (Raise bad_value), Logged ERROR (NonWeb3Error ''http://node'' bad_value)]"
    using t by (simp add: w0_def node_def bad_value_Exception)
  moreover have "attempts (trace w') = 1"
    using a by (simp add: w0_def attempts_def)
  moreover have "sleeps (trace w') = []"
    using s by (simp add: w0_def)
  ultimately show ?thesis
    using f c r by blast
qed

subsection \<open>Success\<close>

text \<open>
  C6. An attempt that succeeds ends the loop at once, at whatever attempt it is: the value
  is returned as it is and the trace gains that attempt alone. In particular, when the
  first two attempts raise caught web3 errors with budget left after each and the third
  succeeds, \<^verbatim>\<open>retry_web3\<close> returns the value of the third after exactly three attempts
  and two sleeps.
\<close>

theorem success_returned_at_once:
  "(func self (ext w) (clock w) = (Return v, s', dt) \<longrightarrow>
      wrapper_loop B func self start n w =
        Some (Return v,
          w\<lparr>clock := clock w + dt, ext := s', trace := trace w @ [Called (Return v)]\<rparr>)) \<and>
   (func self (ext w) (clock w) = (Raise ea, sa, da) \<and> caught_web3 ea \<and>
    0 < real_of_int B - da \<and>
    func self sa (clock w + da + 1) = (Raise eb, sb, db) \<and> caught_web3 eb \<and>
    0 < real_of_int B - (da + 1 + db) \<and>
    func self sb (clock w + da + 1 + db + 1) = (Return v, sc, dc) \<longrightarrow>
      retry_web3 B func self w =
        Some (Return v,
          w\<lparr>clock := clock w + da + 1 + db + 1 + dc, ext := sc,
            trace := trace w @
              [Called (Raise ea),
               Logged WARNING (Web3ErrorOnAttempt (rpc_url self) 1 ea (real_of_int B - da)),
               Slept 1,
               Called (Raise eb),
               Logged WARNING
                 (Web3ErrorOnAttempt (rpc_url self) 2 eb (real_of_int B - (da + 1 + db))),
               Slept 1,
               Called (Return v)]\<rparr>))"
proof (intro conjI impI)
  assume "func self (ext w) (clock w) = (Return v, s', dt)"
  then have "wrapper_iteration B func self start n w =
     Done (Return v)
       (w\<lparr>clock := clock w + dt, ext := s', trace := trace w @ [Called (Return v)]\<rparr>)"
    by (rule iteration_Return)
  then show "wrapper_loop B func self start n w =
        Some (Return v,
          w\<lparr>clock := clock w + dt, ext := s', trace := trace w @ [Called (Return v)]\<rparr>)"
    by (rule wrapper_loop_Done)
next
  assume a: "func self (ext w) (clock w) = (Raise ea, sa, da) \<and> caught_web3 ea \<and>
    0 < real_of_int B - da \<and>
    func self sa (clock w + da + 1) = (Raise eb, sb, db) \<and> caught_web3 eb \<and>
    0 < real_of_int B - (da + 1 + db) \<and>
    func self sb (clock w + da + 1 + db + 1) = (Return v, sc, dc)"
  let ?l1 = "Logged WARNING (Web3ErrorOnAttempt (rpc_url self) 1 ea (real_of_int B - da))"
  let ?l2 = "Logged WARNING
                 (Web3ErrorOnAttempt (rpc_url self) 2 eb (real_of_int B - (da + 1 + db)))"
  let ?w1 = "w\<lparr>clock := clock w + da + 1, ext := sa,
                trace := trace w @ [Called (Raise ea), ?l1, Slept 1]\<rparr>"
  let ?w2 = "?w1\<lparr>clock := clock ?w1 + db + 1, ext := sb,
                trace := trace ?w1 @ [Called (Raise eb), ?l2, Slept 1]\<rparr>"
  have i1: "wrapper_iteration B func self (clock w) 1 w = Again ?w1"
    using a by (simp add: iteration_retry)
  have i2: "wrapper_iteration B func self (clock w) (1 + 1) ?w1 = Again ?w2"
    using a by (simp add: iteration_retry add.assoc)
  have i3: "wrapper_iteration B func self (clock w) (1 + 1 + 1) ?w2 =
      Done (Return v)
        (?w2\<lparr>clock := clock ?w2 + dc, ext := sc, trace := trace ?w2 @ [Called (Return v)]\<rparr>)"
    using a by (simp add: iteration_Return)
  have "retry_web3 B func self w = wrapper_loop B func self (clock w) (1 + 1) ?w1"
    unfolding retry_web3_def time_time_def by (rule wrapper_loop_Again [OF i1])
  also have "\<dots> = wrapper_loop B func self (clock w) (1 + 1 + 1) ?w2"
    by (rule wrapper_loop_Again [OF i2])
  also have "\<dots> = Some (Return v,
        ?w2\<lparr>clock := clock ?w2 + dc, ext := sc, trace := trace ?w2 @ [Called (Return v)]\<rparr>)"
    by (rule wrapper_loop_Done [OF i3])
  finally show "retry_web3 B func self w =
        Some (Return v,
          w\<lparr>clock := clock w + da + 1 + db + 1 + dc, ext := sc,
            trace := trace w @
              [Called (Raise ea), ?l1, Slept 1, Called (Raise eb), ?l2, Slept 1,
               Called (Return v)]\<rparr>)"
    by simp
qed

theorem success_returned_at_once_witness:
  "refused_twice_then (42 :: int) node 2 102 = (Return 42, 3, 0) \<and>
   wrapper_loop 2 (refused_twice_then (42 :: int)) node 100 3
       \<lparr>clock = 102, ext = 2, trace = []\<rparr> =
     Some (Return 42, \<lparr>clock = 102, ext = 3, trace = [Called (Return 42)]\<rparr>) \<and>
   refused_twice_then (42 :: int) node 0 100 = (Raise refused, 1, 0) \<and>
   caught_web3 refused \<and>
   refused_twice_then (42 :: int) node 1 101 = (Raise refused, 2, 0) \<and>
   retry_web3 2 (refused_twice_then (42 :: int)) node w0 =
     Some (Return 42,
       \<lparr>clock = 102, ext = 3,
        trace =
          [Called (Raise refused),
           Logged WARNING (Web3ErrorOnAttempt ''http://node'' 1 refused 2),
           Slept 1,
           Called (Raise refused),
           Logged WARNING (Web3ErrorOnAttempt ''http://node'' 2 refused 1),
           Slept 1,
           Called (Return 42)]\<rparr>)"
proof -
  have f1: "refused_twice_then (42 :: int) node 0 100 = (Raise refused, 1, 0)"
    by (simp add: refused_twice_then_def scripted_def)
  have f2: "refused_twice_then (42 :: int) node 1 101 = (Raise refused, 2, 0)"
    by (simp add: refused_twice_then_def scripted_def)
  have f3: "refused_twice_then (42 :: int) node 2 102 = (Return 42, 3, 0)"
    by (simp add: refused_twice_then_def scripted_def)
  have c: "caught_web3 refused"
    by (rule caught_refused)
  have one: "wrapper_loop 2 (refused_twice_then (42 :: int)) node 100 3
       \<lparr>clock = 102, ext = 2, trace = []\<rparr> =
     Some (Return 42, \<lparr>clock = 102, ext = 3, trace = [Called (Return 42)]\<rparr>)"
    using success_returned_at_once [where func = "refused_twice_then (42 :: int)"
        and self = node and w = "\<lparr>clock = 102, ext = 2, trace = []\<rparr>" and v = 42 and s' = 3
        and dt = 0 and B = 2 and start = 100 and n = 3, THEN conjunct1] f3
    by simp
  have two: "retry_web3 2 (refused_twice_then (42 :: int)) node w0 =
     Some (Return 42,
       \<lparr>clock = 102, ext = 3,
        trace =
          [Called (Raise refused),
           Logged WARNING (Web3ErrorOnAttempt ''http://node'' 1 refused 2),
           Slept 1,
           Called (Raise refused),
           Logged WARNING (Web3ErrorOnAttempt ''http://node'' 2 refused 1),
           Slept 1,
           Called (Return 42)]\<rparr>)"
    using success_returned_at_once [where func = "refused_twice_then (42 :: int)"
        and self = node and w = w0 and v = 42 and ea = refused and sa = 1 and da = 0
        and eb = refused and sb = 2 and db = 0 and sc = 3 and dc = 0 and B = 2,
        THEN conjunct2] f1 f2 f3 c
    by (simp add: w0_def node_def)
  from f1 f2 f3 c one two show ?thesis
    by blast
qed

subsection \<open>The budget exhausted\<close>

text \<open>
  C2. When an attempt, the first or a later one, raises a caught web3 error and nothing
  is left of the budget, the loop ends by raising that very error. And whatever
  \<^verbatim>\<open>retry_web3\<close> returns or raises is the outcome of the last attempt it made: it
  makes no exception of its own, and a run that ends on the line of the exhausted budget
  raises the caught web3 error of its last attempt, whatever the earlier attempts raised.
\<close>

theorem exhausted_raises_last_error:
  "(func self (ext w) (clock w) = (Raise e, s', dt) \<and> caught_web3 e \<and>
    real_of_int B - (clock w + dt - start) \<le> 0 \<longrightarrow>
      wrapper_loop B func self start n w =
        Some (Raise e,
          w\<lparr>clock := clock w + dt, ext := s',
             trace := trace w @
               [Called (Raise e),
                Logged WARNING (Web3ErrorOnAttempt (rpc_url self) n e
                  (real_of_int B - (clock w + dt - start))),
                Logged ERROR (RetryTimeoutExceeded (rpc_url self) B)]\<rparr>)) \<and>
   (retry_web3 B func self v = Some (r, v') \<longrightarrow>
      (\<exists>tr. trace v' = trace v @ tr \<and> outcomes tr \<noteq> [] \<and> r = last (outcomes tr) \<and>
         (last tr = Logged ERROR (RetryTimeoutExceeded (rpc_url self) B) \<longrightarrow>
            (\<exists>x. r = Raise x \<and> caught_web3 x \<and>
                 real_of_int B - (clock v' - clock v) \<le> 0))))"
proof (intro conjI impI)
  assume a: "func self (ext w) (clock w) = (Raise e, s', dt) \<and> caught_web3 e \<and>
    real_of_int B - (clock w + dt - start) \<le> 0"
  then have f: "func self (ext w) (clock w) = (Raise e, s', dt)" and c: "caught_web3 e"
    and x: "real_of_int B - (clock w + dt - start) \<le> 0"
    by simp_all
  from iteration_exhausted [where func = func, OF f c x]
  show "wrapper_loop B func self start n w =
        Some (Raise e,
          w\<lparr>clock := clock w + dt, ext := s',
             trace := trace w @
               [Called (Raise e),
                Logged WARNING (Web3ErrorOnAttempt (rpc_url self) n e
                  (real_of_int B - (clock w + dt - start))),
                Logged ERROR (RetryTimeoutExceeded (rpc_url self) B)]\<rparr>)"
    by (rule wrapper_loop_Done)
next
  assume "retry_web3 B func self v = Some (r, v')"
  then have "wrapper_loop B func self (clock v) 1 v = Some (r, v')"
    by (simp add: retry_web3_def time_time_def)
  from wrapper_loop_last_outcome [OF this]
  show "\<exists>tr. trace v' = trace v @ tr \<and> outcomes tr \<noteq> [] \<and> r = last (outcomes tr) \<and>
         (last tr = Logged ERROR (RetryTimeoutExceeded (rpc_url self) B) \<longrightarrow>
            (\<exists>x. r = Raise x \<and> caught_web3 x \<and>
                 real_of_int B - (clock v' - clock v) \<le> 0))"
    by auto
qed

theorem exhausted_raises_last_error_witness:
  "(refused_then_not_indexed :: (int, nat) work) node 3 103 = (Raise not_indexed, 4, 0) \<and>
   caught_web3 not_indexed \<and> real_of_int 3 - (103 + 0 - 100) \<le> (0 :: real) \<and>
   wrapper_loop 3 (refused_then_not_indexed :: (int, nat) work) node 100 4
       \<lparr>clock = 103, ext = 3, trace = []\<rparr> =
     Some (Raise not_indexed,
       \<lparr>clock = 103, ext = 4,
        trace = [Called (Raise not_indexed),
                 Logged WARNING (Web3ErrorOnAttempt ''http://node'' 4 not_indexed 0),
                 Logged ERROR (RetryTimeoutExceeded ''http://node'' 3)]\<rparr>) \<and>
   (\<exists>w'. retry_web3 3 refused_then_not_indexed node (w0 :: (int, nat) world) =
          Some (Raise not_indexed, w') \<and>
        outcomes (trace w') =
          [Raise refused, Raise refused, Raise refused, Raise not_indexed] \<and>
        last (trace w') = Logged ERROR (RetryTimeoutExceeded (rpc_url node) 3) \<and>
        not_indexed \<noteq> refused \<and>
        real_of_int 3 - (clock w' - clock (w0 :: (int, nat) world)) \<le> 0)"
proof -
  let ?tr = "[Called (Raise refused),
           Logged WARNING (Web3ErrorOnAttempt ''http://node'' 1 refused 3),
           Slept 1,
           Called (Raise refused),
           Logged WARNING (Web3ErrorOnAttempt ''http://node'' 2 refused 2),
           Slept 1,
           Called (Raise refused),
           Logged WARNING (Web3ErrorOnAttempt ''http://node'' 3 refused 1),
           Slept 1,
           Called (Raise not_indexed),
           Logged WARNING (Web3ErrorOnAttempt ''http://node'' 4 not_indexed 0),
           Logged ERROR (RetryTimeoutExceeded ''http://node'' 3)] :: int event list"
  let ?w' = "\<lparr>clock = 103, ext = 4, trace = ?tr\<rparr> :: (int, nat) world"
  have run: "retry_web3 3 refused_then_not_indexed node (w0 :: (int, nat) world) =
     Some (Raise not_indexed, ?w')"
    by (simp add: retry_web3_def wrapper_loop.simps wrapper_iteration_def world_ops
        refused_then_not_indexed_def scripted_def w0_def node_def caught_refused
        caught_not_indexed)
  have l: "last (trace ?w') = Logged ERROR (RetryTimeoutExceeded (rpc_url node) 3)"
    by (simp add: node_def)
  let ?u = "\<lparr>clock = 103, ext = 3, trace = []\<rparr> :: (int, nat) world"
  have f: "(refused_then_not_indexed :: (int, nat) work) node (ext ?u) (clock ?u) =
      (Raise not_indexed, 4, 0)"
    by (simp add: refused_then_not_indexed_def scripted_def)
  have c: "caught_web3 not_indexed"
    by (rule caught_not_indexed)
  have x: "real_of_int 3 - (clock ?u + 0 - 100) \<le> 0"
    by simp
  note t = exhausted_raises_last_error [where func = refused_then_not_indexed
      and self = node and B = 3 and w = ?u and e = not_indexed and s' = 4 and dt = 0
      and start = 100 and n = 4 and v = w0 and r = "Raise not_indexed" and v' = ?w']
  from t [THEN conjunct1, rule_format, OF conjI [OF f conjI [OF c x]]]
  have step: "wrapper_loop 3 (refused_then_not_indexed :: (int, nat) work) node 100 4 ?u =
     Some (Raise not_indexed,
       \<lparr>clock = 103, ext = 4,
        trace = [Called (Raise not_indexed),
                 Logged WARNING (Web3ErrorOnAttempt ''http://node'' 4 not_indexed 0),
                 Logged ERROR (RetryTimeoutExceeded ''http://node'' 3)]\<rparr>)"
    by (simp add: node_def)
  from t [THEN conjunct2, rule_format, OF run] l
  have "real_of_int 3 - (clock ?w' - clock (w0 :: (int, nat) world)) \<le> 0"
    by (auto simp: w0_def)
  moreover have "outcomes (trace ?w') =
      [Raise refused, Raise refused, Raise refused, Raise not_indexed]"
    by simp
  moreover have "not_indexed \<noteq> refused"
    by (rule not_indexed_not_refused)
  ultimately have "\<exists>w'. retry_web3 3 refused_then_not_indexed node (w0 :: (int, nat) world) =
          Some (Raise not_indexed, w') \<and>
        outcomes (trace w') =
          [Raise refused, Raise refused, Raise refused, Raise not_indexed] \<and>
        last (trace w') = Logged ERROR (RetryTimeoutExceeded (rpc_url node) 3) \<and>
        not_indexed \<noteq> refused \<and>
        real_of_int 3 - (clock w' - clock (w0 :: (int, nat) world)) \<le> 0"
    using run l by blast
  moreover from f have "(refused_then_not_indexed :: (int, nat) work) node 3 103 =
      (Raise not_indexed, 4, 0)"
    by simp
  moreover from x have "real_of_int 3 - (103 + 0 - 100) \<le> (0 :: real)"
    by simp
  ultimately show ?thesis
    using c step by (intro conjI)
qed

subsection \<open>A unit of work that always fails\<close>

text \<open>
  With attempts that take no time and always raise a caught web3 error, and sleeps of
  exactly the one second of the source, each round leaves one second less: from \<open>k\<close>
  whole seconds left the loop runs the unit of work \<open>k + 1\<close> more times, sleeps \<open>k\<close>
  times, and raises what the last of these attempts raised.
\<close>

lemma attempt_outcome_0:
  "attempt_outcome func self s t 0 = fst (func self s t)"
  by (simp add: attempt_outcome_def)

lemma attempt_outcome_Suc:
  "func self s t = (r, s', dt) \<Longrightarrow>
   attempt_outcome func self s t (Suc k) = attempt_outcome func self s' (t + dt + 1) k"
  by (simp add: attempt_outcome_def)

lemma before_attempt_Suc:
  "func self s t = (r, s', dt) \<Longrightarrow>
   before_attempt func self s t (Suc k) = before_attempt func self s' (t + dt + 1) k"
  by simp

lemma always_caught_loop:
  assumes H: "\<forall>s t. \<exists>e s'. func self s t = (Raise e, s', 0) \<and> caught_web3 e"
  shows "real_of_int B - (clock w - start) = real k \<Longrightarrow>
     \<exists>e w'. wrapper_loop B func self start n w = Some (Raise e, w') \<and> caught_web3 e \<and>
        Raise e = attempt_outcome func self (ext w) (clock w) k \<and>
        outcomes (trace w') =
          outcomes (trace w) @ map (attempt_outcome func self (ext w) (clock w)) [0..<Suc k] \<and>
        sleeps (trace w') = sleeps (trace w) @ replicate k 1 \<and>
        ext w' = fst (before_attempt func self (ext w) (clock w) (Suc k)) \<and>
        clock w' = clock w + real k"
proof (induction k arbitrary: n w)
  case 0
  from H obtain e s' where f: "func self (ext w) (clock w) = (Raise e, s', 0)"
    and c: "caught_web3 e" by blast
  from 0 have "real_of_int B - (clock w + 0 - start) \<le> 0" by simp
  from iteration_exhausted [where func = func, OF f c this]
  have "wrapper_loop B func self start n w =
     Some (Raise e,
       w\<lparr>clock := clock w + 0, ext := s',
          trace := trace w @
            [Called (Raise e),
             Logged WARNING (Web3ErrorOnAttempt (rpc_url self) n e
               (real_of_int B - (clock w + 0 - start))),
             Logged ERROR (RetryTimeoutExceeded (rpc_url self) B)]\<rparr>)"
    by (rule wrapper_loop_Done)
  with c f show ?case
    by (simp add: attempt_outcome_0)
next
  case (Suc k)
  from H obtain e s' where f: "func self (ext w) (clock w) = (Raise e, s', 0)"
    and c: "caught_web3 e" by blast
  let ?w1 = "w\<lparr>clock := clock w + 0 + 1, ext := s',
          trace := trace w @
            [Called (Raise e),
             Logged WARNING (Web3ErrorOnAttempt (rpc_url self) n e
               (real_of_int B - (clock w + 0 - start))),
             Slept 1]\<rparr>"
  from Suc.prems have "0 < real_of_int B - (clock w + 0 - start)" by simp
  from iteration_retry [where func = func, OF f c this]
  have step: "wrapper_loop B func self start n w = wrapper_loop B func self start (n + 1) ?w1"
    by (rule wrapper_loop_Again)
  from Suc.prems have "real_of_int B - (clock ?w1 - start) = real k" by simp
  from Suc.IH [OF this, of "n + 1"] obtain e' w' where
    r: "wrapper_loop B func self start (n + 1) ?w1 = Some (Raise e', w')" and
    c': "caught_web3 e'" and
    e': "Raise e' = attempt_outcome func self (ext ?w1) (clock ?w1) k" and
    o: "outcomes (trace w') =
          outcomes (trace ?w1) @ map (attempt_outcome func self (ext ?w1) (clock ?w1)) [0..<Suc k]" and
    sl: "sleeps (trace w') = sleeps (trace ?w1) @ replicate k 1" and
    x: "ext w' = fst (before_attempt func self (ext ?w1) (clock ?w1) (Suc k))" and
    cl: "clock w' = clock ?w1 + real k"
    by blast
  have shift: "attempt_outcome func self (ext w) (clock w) (Suc j) =
      attempt_outcome func self (ext ?w1) (clock ?w1) j" for j
    using attempt_outcome_Suc [where func = func and k = j, OF f] by simp
  have bshift: "before_attempt func self (ext w) (clock w) (Suc (Suc k)) =
      before_attempt func self (ext ?w1) (clock ?w1) (Suc k)"
    using before_attempt_Suc [where func = func and k = "Suc k", OF f] by simp
  have m: "map (attempt_outcome func self (ext w) (clock w)) [0..<Suc (Suc k)] =
      Raise e # map (attempt_outcome func self (ext ?w1) (clock ?w1)) [0..<Suc k]"
    using f by (simp only: map_upt_Suc [of _ "Suc k"] shift attempt_outcome_0 fst_conv)
  have 1: "Raise e' = attempt_outcome func self (ext w) (clock w) (Suc k)"
    using e' by (simp only: shift)
  have 2: "outcomes (trace w') =
      outcomes (trace w) @ map (attempt_outcome func self (ext w) (clock w)) [0..<Suc (Suc k)]"
  proof -
    have "outcomes (trace ?w1) = outcomes (trace w) @ [Raise e]"
      by simp
    with o have "outcomes (trace w') =
        (outcomes (trace w) @ [Raise e]) @
        map (attempt_outcome func self (ext ?w1) (clock ?w1)) [0..<Suc k]"
      by (simp only:)
    then show ?thesis
      by (simp only: m append_assoc append_Cons append_Nil)
  qed
  have 3: "sleeps (trace w') = sleeps (trace w) @ replicate (Suc k) 1"
    using sl by (simp add: replicate_append_same)
  have 4: "ext w' = fst (before_attempt func self (ext w) (clock w) (Suc (Suc k)))"
    using x by (simp only: bshift)
  have 5: "clock w' = clock w + real (Suc k)"
    using cl by simp
  from step r have "wrapper_loop B func self start n w = Some (Raise e', w')"
    by simp
  with c' 1 2 3 4 5 show ?case
    by blast
qed

text \<open>
  C5. A unit of work that always raises a caught web3 error and takes no time, under a
  budget of \<open>B \<ge> 0\<close> seconds: \<^verbatim>\<open>retry_web3\<close> terminates by raising, after running the
  unit of work exactly \<open>\<lfloor>B / 1\<rfloor> + 1\<close> times with \<open>B\<close> sleeps of one second between
  them, \<open>B\<close> seconds after it started. The attempts recorded are the unit of work's own,
  one after the other from the state it was handed; the error raised is the one its last
  attempt raised, and its state is the one that attempt left. The backoff is the
  constant of the source (line 60), one second, and the budget is an \<^verbatim>\<open>int\<close> (line 27).
\<close>

theorem always_failing_attempts:
  assumes "\<forall>s t. \<exists>e s'. func self s t = (Raise e, s', 0) \<and> caught_web3 e" and "0 \<le> B"
  shows "\<exists>e w'. retry_web3 B func self w = Some (Raise e, w') \<and> caught_web3 e \<and>
           Raise e = attempt_outcome func self (ext w) (clock w) (nat B) \<and>
           outcomes (trace w') =
             outcomes (trace w) @
             map (attempt_outcome func self (ext w) (clock w))
               [0..<nat \<lfloor>real_of_int B / 1\<rfloor> + 1] \<and>
           attempts (trace w') = attempts (trace w) + (nat \<lfloor>real_of_int B / 1\<rfloor> + 1) \<and>
           sleeps (trace w') = sleeps (trace w) @ replicate (nat B) 1 \<and>
           ext w' = fst (before_attempt func self (ext w) (clock w) (nat B + 1)) \<and>
           clock w' - clock w = real_of_int B"
proof -
  from assms(2) have "real_of_int B - (clock w - clock w) = real (nat B)"
    by simp
  from always_caught_loop [where func = func and self = self and n = 1, OF assms(1) this]
  obtain e w' where
    r: "wrapper_loop B func self (clock w) 1 w = Some (Raise e, w')" and
    c: "caught_web3 e" and
    e: "Raise e = attempt_outcome func self (ext w) (clock w) (nat B)" and
    o: "outcomes (trace w') =
          outcomes (trace w) @ map (attempt_outcome func self (ext w) (clock w)) [0..<Suc (nat B)]" and
    sl: "sleeps (trace w') = sleeps (trace w) @ replicate (nat B) 1" and
    x: "ext w' = fst (before_attempt func self (ext w) (clock w) (Suc (nat B)))" and
    cl: "clock w' = clock w + real (nat B)"
    by blast
  have a: "attempts (trace w') = attempts (trace w) + (nat \<lfloor>real_of_int B / 1\<rfloor> + 1)"
    using o by (simp add: attempts_def)
  from r have "retry_web3 B func self w = Some (Raise e, w')"
    by (simp add: retry_web3_def time_time_def)
  moreover from o have "outcomes (trace w') =
             outcomes (trace w) @
             map (attempt_outcome func self (ext w) (clock w))
               [0..<nat \<lfloor>real_of_int B / 1\<rfloor> + 1]"
    by simp
  moreover from x have "ext w' = fst (before_attempt func self (ext w) (clock w) (nat B + 1))"
    by simp
  moreover from cl assms(2) have "clock w' - clock w = real_of_int B"
    by simp
  ultimately show ?thesis
    using c e a sl by blast
qed

theorem always_failing_attempts_witness:
  "(\<forall>s t. \<exists>e s'. (always_refused :: (int, nat) work) node s t = (Raise e, s', 0) \<and>
      caught_web3 e) \<and>
   (0 :: int) \<le> 3 \<and>
   (\<exists>w'. retry_web3 3 always_refused node (w0 :: (int, nat) world) = Some (Raise refused, w') \<and>
      outcomes (trace w') = [Raise refused, Raise refused, Raise refused, Raise refused] \<and>
      attempts (trace w') = 4 \<and> sleeps (trace w') = [1, 1, 1] \<and>
      ext w' = 4 \<and> clock w' = 103) \<and>
   (\<forall>s t. \<exists>e s'. (refused_then_not_indexed :: (int, nat) work) node s t = (Raise e, s', 0) \<and>
      caught_web3 e) \<and>
   (\<exists>w'. retry_web3 3 refused_then_not_indexed node (w0 :: (int, nat) world) =
        Some (Raise not_indexed, w') \<and>
      outcomes (trace w') = [Raise refused, Raise refused, Raise refused, Raise not_indexed] \<and>
      attempts (trace w') = 4 \<and> sleeps (trace w') = [1, 1, 1] \<and>
      ext w' = 4 \<and> clock w' = 103)"
proof -
  have h: "\<forall>s t. \<exists>e s'. (always_refused :: (int, nat) work) node s t = (Raise e, s', 0) \<and>
      caught_web3 e"
    by (simp add: always_refused_def scripted_def caught_refused)
  have g: "\<forall>s t. \<exists>e s'. (refused_then_not_indexed :: (int, nat) work) node s t =
      (Raise e, s', 0) \<and> caught_web3 e"
    by (simp add: refused_then_not_indexed_def scripted_def caught_refused caught_not_indexed)
  have b: "(0 :: int) \<le> 3"
    by simp
  have ba: "before_attempt (always_refused :: (int, nat) work) node 0 100 (Suc (Suc (Suc (Suc 0)))) =
      (4, 104)"
    by (simp add: always_refused_def scripted_def)
  have oa: "map (attempt_outcome (always_refused :: (int, nat) work) node 0 100)
      [0..<Suc (Suc (Suc (Suc 0)))] = [Raise refused, Raise refused, Raise refused, Raise refused]"
    by (simp add: attempt_outcome_def always_refused_def scripted_def upt_rec)
  have ea: "attempt_outcome (always_refused :: (int, nat) work) node 0 100 (Suc (Suc (Suc 0))) =
      Raise refused"
    by (simp add: attempt_outcome_def always_refused_def scripted_def)
  have bg: "before_attempt (refused_then_not_indexed :: (int, nat) work) node 0 100
      (Suc (Suc (Suc (Suc 0)))) = (4, 104)"
    by (simp add: refused_then_not_indexed_def scripted_def)
  have og: "map (attempt_outcome (refused_then_not_indexed :: (int, nat) work) node 0 100)
      [0..<Suc (Suc (Suc (Suc 0)))] =
      [Raise refused, Raise refused, Raise refused, Raise not_indexed]"
    by (simp add: attempt_outcome_def refused_then_not_indexed_def scripted_def upt_rec)
  have eg: "attempt_outcome (refused_then_not_indexed :: (int, nat) work) node 0 100
      (Suc (Suc (Suc 0))) = Raise not_indexed"
    by (simp add: attempt_outcome_def refused_then_not_indexed_def scripted_def)
  have ba': "before_attempt (always_refused :: (int, nat) work) node 0 100 4 = (4, 104)"
    using ba by (simp add: eval_nat_numeral)
  have oa': "map (attempt_outcome (always_refused :: (int, nat) work) node 0 100) [0..<4] =
      [Raise refused, Raise refused, Raise refused, Raise refused]"
    using oa by (simp add: eval_nat_numeral)
  have ea': "attempt_outcome (always_refused :: (int, nat) work) node 0 100 3 = Raise refused"
    using ea by (simp add: eval_nat_numeral)
  have bg': "before_attempt (refused_then_not_indexed :: (int, nat) work) node 0 100 4 =
      (4, 104)"
    using bg by (simp add: eval_nat_numeral)
  have og': "map (attempt_outcome (refused_then_not_indexed :: (int, nat) work) node 0 100)
      [0..<4] = [Raise refused, Raise refused, Raise refused, Raise not_indexed]"
    using og by (simp add: eval_nat_numeral)
  have eg': "attempt_outcome (refused_then_not_indexed :: (int, nat) work) node 0 100 3 =
      Raise not_indexed"
    using eg by (simp add: eval_nat_numeral)
  have 1: "\<exists>w'. retry_web3 3 always_refused node (w0 :: (int, nat) world) =
        Some (Raise refused, w') \<and>
      outcomes (trace w') = [Raise refused, Raise refused, Raise refused, Raise refused] \<and>
      attempts (trace w') = 4 \<and> sleeps (trace w') = [1, 1, 1] \<and>
      ext w' = 4 \<and> clock w' = 103"
  proof -
    from always_failing_attempts [where func = always_refused and self = node and w = w0,
        OF h b]
    obtain e and w' :: "(int, nat) world" where
      r: "retry_web3 3 always_refused node w0 = Some (Raise e, w')" and
      e: "Raise e = attempt_outcome (always_refused :: (int, nat) work) node (ext (w0 :: (int, nat) world))
            (clock (w0 :: (int, nat) world)) (nat 3)" and
      o: "outcomes (trace w') =
            outcomes (trace (w0 :: (int, nat) world)) @
            map (attempt_outcome (always_refused :: (int, nat) work) node (ext (w0 :: (int, nat) world))
                  (clock (w0 :: (int, nat) world)))
              [0..<nat \<lfloor>real_of_int 3 / 1\<rfloor> + 1]" and
      a: "attempts (trace w') =
            attempts (trace (w0 :: (int, nat) world)) + (nat \<lfloor>real_of_int 3 / 1\<rfloor> + 1)" and
      sl: "sleeps (trace w') = sleeps (trace (w0 :: (int, nat) world)) @ replicate (nat 3) 1" and
      x: "ext w' = fst (before_attempt (always_refused :: (int, nat) work) node (ext (w0 :: (int, nat) world))
            (clock (w0 :: (int, nat) world)) (nat 3 + 1))" and
      cl: "clock w' - clock (w0 :: (int, nat) world) = real_of_int 3"
      by (elim exE conjE) (rule that)
    from e have "Raise e = (Raise refused :: int outcome)"
      by (simp add: w0_def ea')
    then have "e = refused"
      by simp
    with r have "retry_web3 3 always_refused node (w0 :: (int, nat) world) =
        Some (Raise refused, w')"
      by simp
    moreover from o have "outcomes (trace w') = [Raise refused, Raise refused, Raise refused, Raise refused]"
      by (simp add: w0_def oa')
    moreover from a have "attempts (trace w') = 4"
      by (simp add: w0_def attempts_def)
    moreover from sl have "sleeps (trace w') = [1, 1, 1]"
      by (simp add: w0_def eval_nat_numeral)
    moreover from x have "ext w' = 4"
      by (simp add: w0_def ba')
    moreover from cl have "clock w' = 103"
      by (simp add: w0_def)
    ultimately show ?thesis
      by blast
  qed
  have 2: "\<exists>w'. retry_web3 3 refused_then_not_indexed node (w0 :: (int, nat) world) =
        Some (Raise not_indexed, w') \<and>
      outcomes (trace w') = [Raise refused, Raise refused, Raise refused, Raise not_indexed] \<and>
      attempts (trace w') = 4 \<and> sleeps (trace w') = [1, 1, 1] \<and>
      ext w' = 4 \<and> clock w' = 103"
  proof -
    from always_failing_attempts [where func = refused_then_not_indexed and self = node and w = w0,
        OF g b]
    obtain e and w' :: "(int, nat) world" where
      r: "retry_web3 3 refused_then_not_indexed node w0 = Some (Raise e, w')" and
      e: "Raise e = attempt_outcome (refused_then_not_indexed :: (int, nat) work) node (ext (w0 :: (int, nat) world))
            (clock (w0 :: (int, nat) world)) (nat 3)" and
      o: "outcomes (trace w') =
            outcomes (trace (w0 :: (int, nat) world)) @
            map (attempt_outcome (refused_then_not_indexed :: (int, nat) work) node (ext (w0 :: (int, nat) world))
                  (clock (w0 :: (int, nat) world)))
              [0..<nat \<lfloor>real_of_int 3 / 1\<rfloor> + 1]" and
      a: "attempts (trace w') =
            attempts (trace (w0 :: (int, nat) world)) + (nat \<lfloor>real_of_int 3 / 1\<rfloor> + 1)" and
      sl: "sleeps (trace w') = sleeps (trace (w0 :: (int, nat) world)) @ replicate (nat 3) 1" and
      x: "ext w' = fst (before_attempt (refused_then_not_indexed :: (int, nat) work) node (ext (w0 :: (int, nat) world))
            (clock (w0 :: (int, nat) world)) (nat 3 + 1))" and
      cl: "clock w' - clock (w0 :: (int, nat) world) = real_of_int 3"
      by (elim exE conjE) (rule that)
    from e have "Raise e = (Raise not_indexed :: int outcome)"
      by (simp add: w0_def eg')
    then have "e = not_indexed"
      by simp
    with r have "retry_web3 3 refused_then_not_indexed node (w0 :: (int, nat) world) =
        Some (Raise not_indexed, w')"
      by simp
    moreover from o have "outcomes (trace w') = [Raise refused, Raise refused, Raise refused, Raise not_indexed]"
      by (simp add: w0_def og')
    moreover from a have "attempts (trace w') = 4"
      by (simp add: w0_def attempts_def)
    moreover from sl have "sleeps (trace w') = [1, 1, 1]"
      by (simp add: w0_def eval_nat_numeral)
    moreover from x have "ext w' = 4"
      by (simp add: w0_def bg')
    moreover from cl have "clock w' = 103"
      by (simp add: w0_def)
    ultimately show ?thesis
      by blast
  qed
  from h b 1 g 2 show ?thesis
    by (intro conjI)
qed

subsection \<open>Which errors are retried\<close>

text \<open>
  C4, as the code has it. An error raised by an attempt sends the wrapper round the loop
  again, under some budget, exactly when it is an instance of one of the four web3 classes
  of the \<^verbatim>\<open>except\<close> tuple, \<^verbatim>\<open>ProviderConnectionError\<close>, \<^verbatim>\<open>TimeExhausted\<close>,
  \<^verbatim>\<open>BlockNotFound\<close> and \<^verbatim>\<open>TransactionNotFound\<close>, or of a class that derives from one
  of them. Such an error is retried whenever budget is left after the attempt: the wrapper
  sleeps and runs the unit of work again, at a later attempt as at the first one of
  \<^verbatim>\<open>retry_web3\<close>. An error of any other class is raised at once, at its first
  occurrence, whatever the budget.
\<close>

theorem retried_iff_web3_class:
  assumes "func self (ext w) (clock w) = (Raise e, s', dt)"
  shows "((\<exists>B start n w'. wrapper_iteration B func self start n w = Again w') \<longleftrightarrow>
            isinstance e ProviderConnectionError \<or> isinstance e TimeExhausted \<or>
            isinstance e BlockNotFound \<or> isinstance e TransactionNotFound) \<and>
         (isinstance e ProviderConnectionError \<or> isinstance e TimeExhausted \<or>
          isinstance e BlockNotFound \<or> isinstance e TransactionNotFound \<longrightarrow>
            (0 < real_of_int B - (clock w + dt - start) \<longrightarrow>
               wrapper_loop B func self start n w =
                 wrapper_loop B func self start (n + 1)
                   (w\<lparr>clock := clock w + dt + 1, ext := s',
                      trace := trace w @
                        [Called (Raise e),
                         Logged WARNING (Web3ErrorOnAttempt (rpc_url self) n e
                           (real_of_int B - (clock w + dt - start))),
                         Slept 1]\<rparr>)) \<and>
            (0 < real_of_int B - dt \<longrightarrow>
               retry_web3 B func self w =
                 wrapper_loop B func self (clock w) 2
                   (w\<lparr>clock := clock w + dt + 1, ext := s',
                      trace := trace w @
                        [Called (Raise e),
                         Logged WARNING (Web3ErrorOnAttempt (rpc_url self) 1 e
                           (real_of_int B - dt)),
                         Slept 1]\<rparr>))) \<and>
         (\<not> (isinstance e ProviderConnectionError \<or> isinstance e TimeExhausted \<or>
             isinstance e BlockNotFound \<or> isinstance e TransactionNotFound) \<longrightarrow>
            wrapper_loop B func self start n w =
              Some (Raise e,
                w\<lparr>clock := clock w + dt, ext := s',
                   trace := trace w @ Called (Raise e) #
                     (if caught_Exception e
                      then [Logged ERROR (NonWeb3Error (rpc_url self) e)] else [])\<rparr>) \<and>
            retry_web3 B func self w =
              Some (Raise e,
                w\<lparr>clock := clock w + dt, ext := s',
                   trace := trace w @ Called (Raise e) #
                     (if caught_Exception e
                      then [Logged ERROR (NonWeb3Error (rpc_url self) e)] else [])\<rparr>))"
proof -
  let ?web3 = "isinstance e ProviderConnectionError \<or> isinstance e TimeExhausted \<or>
      isinstance e BlockNotFound \<or> isinstance e TransactionNotFound"
  have iff: "(\<exists>B start n w'. wrapper_iteration B func self start n w = Again w') \<longleftrightarrow> ?web3"
  proof
    assume "\<exists>B start n w'. wrapper_iteration B func self start n w = Again w'"
    then obtain B start n w' where a: "wrapper_iteration B func self start n w = Again w'"
      by blast
    have "caught_web3 e"
    proof (rule ccontr)
      assume "\<not> caught_web3 e"
      from iteration_fatal [where func = func, OF assms this] a show False
        by simp
    qed
    then show ?web3
      by (simp only: caught_web3_iff)
  next
    assume ?web3
    then have c: "caught_web3 e"
      by (simp only: caught_web3_iff)
    have "0 < real_of_int 1 - (clock w + dt - (clock w + dt))"
      by simp
    from iteration_retry [where func = func, OF assms c this]
    show "\<exists>B start n w'. wrapper_iteration B func self start n w = Again w'"
      by blast
  qed
  have again: "wrapper_loop B func self start n w =
      wrapper_loop B func self start (n + 1)
        (w\<lparr>clock := clock w + dt + 1, ext := s',
           trace := trace w @
             [Called (Raise e),
              Logged WARNING (Web3ErrorOnAttempt (rpc_url self) n e
                (real_of_int B - (clock w + dt - start))),
              Slept 1]\<rparr>)"
    if "?web3" and r: "0 < real_of_int B - (clock w + dt - start)" for start n
  proof -
    from that(1) have c: "caught_web3 e"
      by (simp only: caught_web3_iff)
    from iteration_retry [where func = func, OF assms c r] show ?thesis
      by (rule wrapper_loop_Again)
  qed
  have first: "retry_web3 B func self w =
      wrapper_loop B func self (clock w) 2
        (w\<lparr>clock := clock w + dt + 1, ext := s',
           trace := trace w @
             [Called (Raise e),
              Logged WARNING (Web3ErrorOnAttempt (rpc_url self) 1 e (real_of_int B - dt)),
              Slept 1]\<rparr>)"
    if "?web3" and r: "0 < real_of_int B - dt"
  proof -
    from r have "0 < real_of_int B - (clock w + dt - clock w)"
      by simp
    from again [OF that(1) this, of 1] show ?thesis
      by (simp add: retry_web3_def time_time_def numeral_2_eq_2)
  qed
  have fatal: "wrapper_loop B func self start n w =
      Some (Raise e,
        w\<lparr>clock := clock w + dt, ext := s',
           trace := trace w @ Called (Raise e) #
             (if caught_Exception e
              then [Logged ERROR (NonWeb3Error (rpc_url self) e)] else [])\<rparr>)"
    if "\<not> ?web3" for start n
  proof -
    from that have c: "\<not> caught_web3 e"
      by (simp add: caught_web3_iff)
    from iteration_fatal [where func = func, OF assms c] show ?thesis
      by (rule wrapper_loop_Done)
  qed
  have fatal_first: "retry_web3 B func self w =
      Some (Raise e,
        w\<lparr>clock := clock w + dt, ext := s',
           trace := trace w @ Called (Raise e) #
             (if caught_Exception e
              then [Logged ERROR (NonWeb3Error (rpc_url self) e)] else [])\<rparr>)"
    if "\<not> ?web3"
    unfolding retry_web3_def by (rule fatal [OF that])
  show ?thesis
    using iff again first fatal fatal_first by (intro conjI impI) assumption+
qed


theorem retried_iff_web3_class_witness:
  "(always_refused :: (int, nat) work) node 0 100 = (Raise refused, 1, 0) \<and>
   isinstance refused ProviderConnectionError \<and>
   (\<exists>B start n w'. wrapper_iteration B (always_refused :: (int, nat) work) node start n
       \<lparr>clock = 100, ext = 0, trace = []\<rparr> = Again w') \<and>
   retry_web3 30 (always_refused :: (int, nat) work) node \<lparr>clock = 100, ext = 0, trace = []\<rparr> =
     wrapper_loop 30 always_refused node 100 2
       \<lparr>clock = 101, ext = 1,
        trace = [Called (Raise refused),
                 Logged WARNING (Web3ErrorOnAttempt ''http://node'' 1 refused 30),
                 Slept 1]\<rparr> \<and>
   (always_flaky :: (int, nat) work) node 0 100 = (Raise flaky, 1, 0) \<and>
   isinstance flaky ProviderConnectionError \<and> exc_class flaky \<noteq> ProviderConnectionError \<and>
   retry_web3 1 (always_flaky :: (int, nat) work) node \<lparr>clock = 100, ext = 0, trace = []\<rparr> =
     Some (Raise flaky,
       \<lparr>clock = 101, ext = 2,
        trace = [Called (Raise flaky),
                 Logged WARNING (Web3ErrorOnAttempt ''http://node'' 1 flaky 1),
                 Slept 1,
                 Called (Raise flaky),
                 Logged WARNING (Web3ErrorOnAttempt ''http://node'' 2 flaky 0),
                 Logged ERROR (RetryTimeoutExceeded ''http://node'' 1)]\<rparr>) \<and>
   (always_bad_value :: (int, nat) work) node 0 100 = (Raise bad_value, 1, 0) \<and>
   \<not> (isinstance bad_value ProviderConnectionError \<or> isinstance bad_value TimeExhausted \<or>
      isinstance bad_value BlockNotFound \<or> isinstance bad_value TransactionNotFound) \<and>
   \<not> (\<exists>B start n w'. wrapper_iteration B (always_bad_value :: (int, nat) work) node start n
       \<lparr>clock = 100, ext = 0, trace = []\<rparr> = Again w') \<and>
   retry_web3 30 (always_bad_value :: (int, nat) work) node
       \<lparr>clock = 100, ext = 0, trace = []\<rparr> =
     Some (Raise bad_value,
       \<lparr>clock = 100, ext = 1,
        trace = [Called (Raise bad_value),
                 Logged ERROR (NonWeb3Error ''http://node'' bad_value)]\<rparr>)"
proof -
  let ?w = "\<lparr>clock = 100, ext = 0, trace = []\<rparr> :: (int, nat) world"
  have f: "(always_refused :: (int, nat) work) node (ext ?w) (clock ?w) = (Raise refused, 1, 0)"
    by (simp add: always_refused_def scripted_def)
  have h: "(always_flaky :: (int, nat) work) node (ext ?w) (clock ?w) = (Raise flaky, 1, 0)"
    by (simp add: always_flaky_def scripted_def)
  have g: "(always_bad_value :: (int, nat) work) node (ext ?w) (clock ?w) =
      (Raise bad_value, 1, 0)"
    by (simp add: always_bad_value_def scripted_def)
  have c: "isinstance refused ProviderConnectionError"
    by (simp add: isinstance_def refused_def class_defs)
  have k: "isinstance flaky ProviderConnectionError"
    by (simp add: isinstance_def flaky_def class_defs)
  have k': "exc_class flaky \<noteq> ProviderConnectionError"
    by (simp add: flaky_def class_defs)
  have d: "\<not> (isinstance bad_value ProviderConnectionError \<or> isinstance bad_value TimeExhausted \<or>
      isinstance bad_value BlockNotFound \<or> isinstance bad_value TransactionNotFound)"
    using bad_value_not_caught by (simp add: caught_web3_iff)
  have r: "0 < real_of_int 30 - (0 :: real)"
    by simp
  have r1: "0 < real_of_int 1 - (0 :: real)"
    by simp
  note t1 = retried_iff_web3_class [where func = always_refused and self = node
      and w = ?w and B = 30 and start = 100 and n = 1, OF f]
  note t2 = retried_iff_web3_class [where func = always_bad_value and self = node
      and w = ?w and B = 30 and start = 100 and n = 1, OF g]
  note t3 = retried_iff_web3_class [where func = always_flaky and self = node
      and w = ?w and B = 1 and start = 100 and n = 1, OF h]
  from t1 [THEN conjunct1] c
  have 1: "\<exists>B start n w'. wrapper_iteration B (always_refused :: (int, nat) work)
      node start n ?w = Again w'"
    by blast
  from t1 [THEN conjunct2, THEN conjunct1, rule_format, OF disjI1 [OF c], THEN conjunct2,
      rule_format, OF r]
  have 2: "retry_web3 30 (always_refused :: (int, nat) work) node ?w =
     wrapper_loop 30 always_refused node 100 2
       \<lparr>clock = 101, ext = 1,
        trace = [Called (Raise refused),
                 Logged WARNING (Web3ErrorOnAttempt ''http://node'' 1 refused 30),
                 Slept 1]\<rparr>"
    by (simp add: node_def)
  from t3 [THEN conjunct2, THEN conjunct1, rule_format, OF disjI1 [OF k], THEN conjunct2,
      rule_format, OF r1]
  have "retry_web3 1 (always_flaky :: (int, nat) work) node ?w =
     wrapper_loop 1 always_flaky node 100 2
       \<lparr>clock = 101, ext = 1,
        trace = [Called (Raise flaky),
                 Logged WARNING (Web3ErrorOnAttempt ''http://node'' 1 flaky 1),
                 Slept 1]\<rparr>"
    by (simp add: node_def)
  also have "\<dots> =
     Some (Raise flaky,
       \<lparr>clock = 101, ext = 2,
        trace = [Called (Raise flaky),
                 Logged WARNING (Web3ErrorOnAttempt ''http://node'' 1 flaky 1),
                 Slept 1,
                 Called (Raise flaky),
                 Logged WARNING (Web3ErrorOnAttempt ''http://node'' 2 flaky 0),
                 Logged ERROR (RetryTimeoutExceeded ''http://node'' 1)]\<rparr>)"
    by (simp add: wrapper_loop.simps wrapper_iteration_def world_ops always_flaky_def
        scripted_def node_def flaky_caught)
  finally have 3: "retry_web3 1 (always_flaky :: (int, nat) work) node ?w =
     Some (Raise flaky,
       \<lparr>clock = 101, ext = 2,
        trace = [Called (Raise flaky),
                 Logged WARNING (Web3ErrorOnAttempt ''http://node'' 1 flaky 1),
                 Slept 1,
                 Called (Raise flaky),
                 Logged WARNING (Web3ErrorOnAttempt ''http://node'' 2 flaky 0),
                 Logged ERROR (RetryTimeoutExceeded ''http://node'' 1)]\<rparr>)" .
  from t2 [THEN conjunct1] d
  have 4: "\<not> (\<exists>B start n w'. wrapper_iteration B
      (always_bad_value :: (int, nat) work) node start n ?w = Again w')"
    by blast
  from t2 [THEN conjunct2, THEN conjunct2, rule_format, OF d, THEN conjunct2]
  have 5: "retry_web3 30 (always_bad_value :: (int, nat) work) node ?w =
     Some (Raise bad_value,
       \<lparr>clock = 100, ext = 1,
        trace = [Called (Raise bad_value),
                 Logged ERROR (NonWeb3Error ''http://node'' bad_value)]\<rparr>)"
    by (simp add: node_def bad_value_Exception)
  from f h g have f': "(always_refused :: (int, nat) work) node 0 100 = (Raise refused, 1, 0)"
    and h': "(always_flaky :: (int, nat) work) node 0 100 = (Raise flaky, 1, 0)"
    and g': "(always_bad_value :: (int, nat) work) node 0 100 = (Raise bad_value, 1, 0)"
    by simp_all
  from f' c 1 2 h' k k' 3 g' d 4 5 show ?thesis
    by (intro conjI)
qed

text \<open>
  C4, as the specification words it, fails on the code: the transient set of the claim
  holds every per-attempt timeout, but a request that runs into the request timeout of
  the handle ends in \<^verbatim>\<open>TimeoutError\<close>, which the tuple does not hold. With a budget of
  30 seconds and 20 of them left, the wrapper raises it after the one attempt, with the
  line of the second clause and no sleep.
\<close>

theorem request_timeout_not_retried:
  "retry_web3 30 request_times_out node (w0 :: (int, nat) world) =
     Some (Raise timed_out,
       \<lparr>clock = 110, ext = 1,
        trace = [Called (Raise timed_out),
                 Logged ERROR (NonWeb3Error ''http://node'' timed_out)]\<rparr>)"
  by (simp add: retry_web3_def wrapper_loop.simps wrapper_iteration_def world_ops
      request_times_out_def w0_def node_def timed_out_not_caught timed_out_Exception)

subsection \<open>The order of the log line and the budget check\<close>




section \<open>Properties of the registry\<close>

subsection \<open>The three ways through \<^verbatim>\<open>get_instance\<close>\<close>

lemma get_instance_cached:
  "instances s url = Some r \<Longrightarrow>
   get_instance F url t s = (Inr r, s\<lparr>log_lines := log_lines s @ [(INFO, UsingCached url)]\<rparr>)"
  by (simp add: get_instance_def logger_info_def)

lemma get_instance_failed:
  "instances s url = None \<Longrightarrow> F (ctor_calls s) url t = Some e \<Longrightarrow>
   get_instance F url t s =
     (Inl e,
      s\<lparr>log_lines := log_lines s @ [(INFO, CreatingNew url), (INFO, InitializingClient url)],
        ctor_calls := Suc (ctor_calls s)\<rparr>)"
  by (simp add: get_instance_def AsyncWeb3Adapter_init_def create_client_def logger_info_def
      Let_def)

lemma get_instance_created:
  "instances s url = None \<Longrightarrow> F (ctor_calls s) url t = None \<Longrightarrow>
   get_instance F url t s =
     (Inr (length (adapters s)),
      s\<lparr>log_lines := log_lines s @ [(INFO, CreatingNew url), (INFO, InitializingClient url)],
        ctor_calls := Suc (ctor_calls s),
        clients := clients s @
          [\<lparr>endpoint_uri = url, request_kwargs_timeout = t,
            middleware_onion = [''ExtraDataToPOAMiddleware'']\<rparr>],
        adapters := adapters s @
          [\<lparr>rpc_url = url, request_timeout = t, w3 = length (clients s)\<rparr>],
        instances := (instances s)(url \<mapsto> length (adapters s))\<rparr>)"
  by (simp add: get_instance_def AsyncWeb3Adapter_init_def create_client_def logger_info_def
      Let_def)

lemma get_instance_cases:
  obtains (cached) r where "instances s url = Some r"
  | (failed) e where "instances s url = None" "F (ctor_calls s) url t = Some e"
  | (created) "instances s url = None" "F (ctor_calls s) url t = None"
  by (cases "instances s url"; cases "F (ctor_calls s) url t") auto

subsection \<open>An identifier already present\<close>

text \<open>
  C8. For a url already in \<^verbatim>\<open>_instances\<close>, \<^verbatim>\<open>get_instance\<close> returns the adapter
  registered for it and changes nothing but the log: the timeout passed makes no
  difference, and the map, the adapter objects (their url, timeout and client) and the
  clients are as before; no client is built.
\<close>

theorem cached_adapter_returned:
  assumes "instances s url = Some r"
  shows "get_instance F url t s =
           (Inr r, s\<lparr>log_lines := log_lines s @ [(INFO, UsingCached url)]\<rparr>) \<and>
         get_instance F url t' s = get_instance F url t s \<and>
         instances (snd (get_instance F url t s)) = instances s \<and>
         adapters (snd (get_instance F url t s)) = adapters s \<and>
         clients (snd (get_instance F url t s)) = clients s \<and>
         ctor_calls (snd (get_instance F url t s)) = ctor_calls s"
  using assms by (simp add: get_instance_cached)

theorem cached_adapter_returned_witness:
  "instances node_registered ''http://node'' = Some 0 \<and>
   adapters node_registered = [\<lparr>rpc_url = ''http://node'', request_timeout = 10, w3 = 0\<rparr>] \<and>
   fst (get_instance no_faults ''http://node'' 99 node_registered) = Inr 0 \<and>
   instances (snd (get_instance no_faults ''http://node'' 99 node_registered)) =
     instances node_registered \<and>
   adapters (snd (get_instance no_faults ''http://node'' 99 node_registered)) =
     [\<lparr>rpc_url = ''http://node'', request_timeout = 10, w3 = 0\<rparr>] \<and>
   clients (snd (get_instance no_faults ''http://node'' 99 node_registered)) =
     [\<lparr>endpoint_uri = ''http://node'', request_kwargs_timeout = 10,
       middleware_onion = [''ExtraDataToPOAMiddleware'']\<rparr>]"
proof -
  have s: "node_registered =
     \<lparr>instances = [''http://node'' \<mapsto> 0],
      adapters = [\<lparr>rpc_url = ''http://node'', request_timeout = 10, w3 = 0\<rparr>],
      clients = [\<lparr>endpoint_uri = ''http://node'', request_kwargs_timeout = 10,
                  middleware_onion = [''ExtraDataToPOAMiddleware'']\<rparr>],
      ctor_calls = 1,
      log_lines = [(INFO, CreatingNew ''http://node''),
                   (INFO, InitializingClient ''http://node'')]\<rparr>"
    by (simp add: node_registered_def get_instance_def AsyncWeb3Adapter_init_def
        create_client_def logger_info_def Let_def initial_state_def no_faults_def)
  have i: "instances node_registered ''http://node'' = Some 0"
    by (simp add: s)
  from cached_adapter_returned [OF i, of no_faults 99] show ?thesis
    using i by (simp add: s)
qed

subsection \<open>A construction that fails\<close>

text \<open>
  C9. When building the client raises for a url that is not in \<^verbatim>\<open>_instances\<close>,
  \<^verbatim>\<open>get_instance\<close> raises that error and the map is as before, with no entry for the
  url; no adapter and no client was added. The next call for the same url builds again:
  it makes one more construction, and when that one succeeds it returns a new adapter
  for the url and registers it.
\<close>

theorem failed_construction_not_cached:
  assumes "instances s url = None" and "F (ctor_calls s) url t = Some e"
  shows "\<exists>s'. get_instance F url t s = (Inl e, s') \<and>
           instances s' = instances s \<and> instances s' url = None \<and>
           adapters s' = adapters s \<and> clients s' = clients s \<and>
           ctor_calls s' = Suc (ctor_calls s) \<and>
           ctor_calls (snd (get_instance F url t' s')) = Suc (ctor_calls s') \<and>
           (F (ctor_calls s') url t' = None \<longrightarrow>
              (\<exists>s''. get_instance F url t' s' = (Inr (length (adapters s)), s'') \<and>
                 instances s'' = (instances s)(url \<mapsto> length (adapters s)) \<and>
                 adapters s'' = adapters s @
                   [\<lparr>rpc_url = url, request_timeout = t', w3 = length (clients s)\<rparr>] \<and>
                 clients_for url s'' = Suc (clients_for url s)))"
proof -
  let ?s' = "s\<lparr>log_lines := log_lines s @
                 [(INFO, CreatingNew url), (INFO, InitializingClient url)],
               ctor_calls := Suc (ctor_calls s)\<rparr>"
  have r: "get_instance F url t s = (Inl e, ?s')"
    using assms by (rule get_instance_failed)
  have n: "instances ?s' url = None"
    using assms(1) by simp
  have again: "ctor_calls (snd (get_instance F url t' ?s')) = Suc (ctor_calls ?s')"
  proof (cases "F (ctor_calls ?s') url t'")
    case None
    from get_instance_created [where F = F, OF n None] show ?thesis by simp
  next
    case (Some e')
    from get_instance_failed [where F = F, OF n Some] show ?thesis by simp
  qed
  have ok: "\<exists>s''. get_instance F url t' ?s' = (Inr (length (adapters s)), s'') \<and>
                 instances s'' = (instances s)(url \<mapsto> length (adapters s)) \<and>
                 adapters s'' = adapters s @
                   [\<lparr>rpc_url = url, request_timeout = t', w3 = length (clients s)\<rparr>] \<and>
                 clients_for url s'' = Suc (clients_for url s)"
    if "F (ctor_calls ?s') url t' = None"
    using get_instance_created [where F = F, OF n that] by (simp add: clients_for_def)
  show ?thesis
    using r n again ok assms(1) by (intro exI [of _ ?s']) simp
qed

theorem failed_construction_not_cached_witness:
  "instances initial_state ''http://node'' = None \<and>
   first_fails (ctor_calls initial_state) ''http://node'' 10 =
     Some (Exc ValueError ''bad endpoint'') \<and>
   (\<exists>s'. get_instance first_fails ''http://node'' 10 initial_state =
            (Inl (Exc ValueError ''bad endpoint''), s') \<and>
      instances s' = Map.empty \<and> adapters s' = [] \<and> clients s' = [] \<and>
      first_fails (ctor_calls s') ''http://node'' 10 = None \<and>
      (\<exists>s''. get_instance first_fails ''http://node'' 10 s' = (Inr 0, s'') \<and>
         instances s'' = [''http://node'' \<mapsto> 0] \<and>
         adapters s'' = [\<lparr>rpc_url = ''http://node'', request_timeout = 10, w3 = 0\<rparr>] \<and>
         clients_for ''http://node'' s'' = 1))"
proof -
  have a: "instances initial_state ''http://node'' = None"
    by (simp add: initial_state_def)
  have b: "first_fails (ctor_calls initial_state) ''http://node'' 10 =
     Some (Exc ValueError ''bad endpoint'')"
    by (simp add: first_fails_def initial_state_def)
  from failed_construction_not_cached [where F = first_fails and t' = 10, OF a b]
  obtain s' where
    r: "get_instance first_fails ''http://node'' 10 initial_state =
            (Inl (Exc ValueError ''bad endpoint''), s')" and
    i: "instances s' = instances initial_state" and
    ad: "adapters s' = adapters initial_state" and
    cl: "clients s' = clients initial_state" and
    k: "ctor_calls s' = Suc (ctor_calls initial_state)" and
    nxt: "first_fails (ctor_calls s') ''http://node'' 10 = None \<longrightarrow>
              (\<exists>s''. get_instance first_fails ''http://node'' 10 s' =
                   (Inr (length (adapters initial_state)), s'') \<and>
                 instances s'' =
                   (instances initial_state)(''http://node'' \<mapsto> length (adapters initial_state)) \<and>
                 adapters s'' = adapters initial_state @
                   [\<lparr>rpc_url = ''http://node'', request_timeout = 10,
                     w3 = length (clients initial_state)\<rparr>] \<and>
                 clients_for ''http://node'' s'' = Suc (clients_for ''http://node'' initial_state))"
    by (elim exE conjE) (rule that)
  have f: "first_fails (ctor_calls s') ''http://node'' 10 = None"
    using k by (simp add: first_fails_def)
  from nxt f obtain s'' where
    "get_instance first_fails ''http://node'' 10 s' = (Inr 0, s'') \<and>
         instances s'' = [''http://node'' \<mapsto> 0] \<and>
         adapters s'' = [\<lparr>rpc_url = ''http://node'', request_timeout = 10, w3 = 0\<rparr>] \<and>
         clients_for ''http://node'' s'' = 1"
    by (auto simp: initial_state_def clients_for_def)
  moreover have "instances s' = Map.empty" "adapters s' = []" "clients s' = []"
    using i ad cl by (simp_all add: initial_state_def)
  ultimately show ?thesis
    using a b r f by blast
qed

subsection \<open>The constructor called directly\<close>

text \<open>
  C10. Without the flag \<^verbatim>\<open>_internal\<close>, which only \<^verbatim>\<open>get_instance\<close> sets, the
  constructor raises \<^verbatim>\<open>RuntimeError\<close> and leaves the state as it was: no attribute is
  assigned, no client is built, no line is logged, no adapter exists that did not before.
\<close>

theorem constructor_needs_internal_flag:
  "AsyncWeb3Adapter_init F url t False s =
     (Inl (Exc RuntimeError ''Use AsyncWeb3Adapter.get_instance()''), s)"
  by (simp add: AsyncWeb3Adapter_init_def)

subsection \<open>One adapter and one client for each url\<close>

text \<open>
  The invariant of the registry: a url has one client when it is in \<^verbatim>\<open>_instances\<close>
  and none when it is not. A call keeps it, never changes an entry that exists, registers
  what it returns, and adds an entry for its own url only, and only when it returns.
\<close>

lemma get_instance_step:
  assumes inv: "\<forall>u. clients_for u s = (if instances s u = None then 0 else 1)"
    and g: "get_instance F url t s = (r, s')"
  shows "(\<forall>u. clients_for u s' = (if instances s' u = None then 0 else 1)) \<and>
         (\<forall>u x. instances s u = Some x \<longrightarrow> instances s' u = Some x) \<and>
         (\<forall>x. r = Inr x \<longrightarrow> instances s' url = Some x) \<and>
         (\<forall>u. instances s' u \<noteq> None \<longrightarrow>
            instances s u \<noteq> None \<or> (u = url \<and> (\<exists>x. r = Inr x))) \<and>
         ((\<forall>k u t. F k u t = None) \<longrightarrow> (\<exists>x. r = Inr x))"
proof (cases rule: get_instance_cases [where s = s and url = url and F = F and t = t])
  case (cached x)
  from get_instance_cached [OF cached, of F t] g inv cached show ?thesis
    by (auto simp: clients_for_def)
next
  case (failed e)
  from get_instance_failed [where F = F, OF failed] g inv failed show ?thesis
    by (auto simp: clients_for_def)
next
  case created
  from get_instance_created [where F = F, OF created] g
  have s': "s' = s\<lparr>log_lines := log_lines s @
                     [(INFO, CreatingNew url), (INFO, InitializingClient url)],
        ctor_calls := Suc (ctor_calls s),
        clients := clients s @
          [\<lparr>endpoint_uri = url, request_kwargs_timeout = t,
            middleware_onion = [''ExtraDataToPOAMiddleware'']\<rparr>],
        adapters := adapters s @
          [\<lparr>rpc_url = url, request_timeout = t, w3 = length (clients s)\<rparr>],
        instances := (instances s)(url \<mapsto> length (adapters s))\<rparr>"
    and r: "r = Inr (length (adapters s))"
    by simp_all
  from inv created(1) have zero: "clients_for url s = 0"
    by simp
  have "clients_for u s' = (if instances s' u = None then 0 else 1)" for u
  proof (cases "u = url")
    case True
    with zero show ?thesis
      by (simp add: s' clients_for_def)
  next
    case False
    with inv show ?thesis
      by (simp add: s' clients_for_def)
  qed
  moreover have "\<forall>u x. instances s u = Some x \<longrightarrow> instances s' u = Some x"
    using created(1) by (auto simp: s')
  moreover have "\<forall>x. r = Inr x \<longrightarrow> instances s' url = Some x"
    by (simp add: s' r)
  moreover have "\<forall>u. instances s' u \<noteq> None \<longrightarrow>
            instances s u \<noteq> None \<or> (u = url \<and> (\<exists>x. r = Inr x))"
    by (auto simp: s' r)
  ultimately show ?thesis
    using r by blast
qed

lemma get_instance_calls_length:
  "get_instance_calls F cs s = (rs, s') \<Longrightarrow> length rs = length cs"
  by (induction cs arbitrary: s rs s') (auto split: prod.splits)

lemma get_instance_calls_inv:
  assumes "get_instance_calls F cs s = (rs, s')"
    and "\<forall>u. clients_for u s = (if instances s u = None then 0 else 1)"
  shows "(\<forall>u. clients_for u s' = (if instances s' u = None then 0 else 1)) \<and>
         (\<forall>u x. instances s u = Some x \<longrightarrow> instances s' u = Some x) \<and>
         (\<forall>i<length cs. \<forall>x. rs ! i = Inr x \<longrightarrow> instances s' (fst (cs ! i)) = Some x) \<and>
         (\<forall>u. instances s' u \<noteq> None \<longrightarrow>
            instances s u \<noteq> None \<or> (\<exists>i<length cs. fst (cs ! i) = u \<and> (\<exists>x. rs ! i = Inr x))) \<and>
         ((\<forall>k u t. F k u t = None) \<longrightarrow> (\<forall>i<length cs. \<exists>x. rs ! i = Inr x))"
  using assms
proof (induction cs arbitrary: s rs s')
  case Nil
  then show ?case by simp
next
  case (Cons c cs)
  obtain url t where c: "c = (url, t)"
    by (cases c)
  obtain r s1 where g: "get_instance F url t s = (r, s1)"
    by (cases "get_instance F url t s")
  obtain rs1 s2 where h: "get_instance_calls F cs s1 = (rs1, s2)"
    by (cases "get_instance_calls F cs s1")
  from Cons.prems(1) c g h have rs: "rs = r # rs1" and s': "s' = s2"
    by simp_all
  note one = get_instance_step [OF Cons.prems(2) g]
  from one have o_inv: "\<forall>u. clients_for u s1 = (if instances s1 u = None then 0 else 1)"
    by (elim conjE)
  from one have o_keep: "\<forall>u x. instances s u = Some x \<longrightarrow> instances s1 u = Some x"
    by (elim conjE)
  from one have o_reg: "\<forall>x. r = Inr x \<longrightarrow> instances s1 url = Some x"
    by (elim conjE)
  from one have o_new: "\<forall>u. instances s1 u \<noteq> None \<longrightarrow>
            instances s u \<noteq> None \<or> (u = url \<and> (\<exists>x. r = Inr x))"
    by (elim conjE)
  from one have o_ok: "(\<forall>k u t. F k u t = None) \<longrightarrow> (\<exists>x. r = Inr x)"
    by (elim conjE)
  note rest = Cons.IH [OF h o_inv]
  from rest have r_inv: "\<forall>u. clients_for u s2 = (if instances s2 u = None then 0 else 1)"
    by (elim conjE)
  from rest have r_keep: "\<forall>u x. instances s1 u = Some x \<longrightarrow> instances s2 u = Some x"
    by (elim conjE)
  from rest have r_reg: "\<forall>i<length cs. \<forall>x. rs1 ! i = Inr x \<longrightarrow> instances s2 (fst (cs ! i)) = Some x"
    by (elim conjE)
  from rest have r_new: "\<forall>u. instances s2 u \<noteq> None \<longrightarrow>
            instances s1 u \<noteq> None \<or> (\<exists>i<length cs. fst (cs ! i) = u \<and> (\<exists>x. rs1 ! i = Inr x))"
    by (elim conjE)
  from rest have r_ok: "(\<forall>k u t. F k u t = None) \<longrightarrow> (\<forall>i<length cs. \<exists>x. rs1 ! i = Inr x)"
    by (elim conjE)
  have 1: "\<forall>u. clients_for u s' = (if instances s' u = None then 0 else 1)"
    unfolding s' by (rule r_inv)
  have 2: "\<forall>u x. instances s u = Some x \<longrightarrow> instances s' u = Some x"
  proof (intro allI impI)
    fix u x
    assume "instances s u = Some x"
    with o_keep have "instances s1 u = Some x" by blast
    with r_keep have "instances s2 u = Some x" by blast
    then show "instances s' u = Some x" by (simp add: s')
  qed
  have 3: "\<forall>i<length (c # cs). \<forall>x. rs ! i = Inr x \<longrightarrow>
      instances s' (fst ((c # cs) ! i)) = Some x"
  proof (intro allI impI)
    fix i x
    assume i: "i < length (c # cs)" and x: "rs ! i = Inr x"
    show "instances s' (fst ((c # cs) ! i)) = Some x"
    proof (cases i)
      case 0
      with x rs have "r = Inr x" by simp
      with o_reg have "instances s1 url = Some x" by blast
      with r_keep have "instances s2 url = Some x" by blast
      with 0 c s' show ?thesis by simp
    next
      case (Suc j)
      with i x rs have j: "j < length cs" and "rs1 ! j = Inr x" by simp_all
      with r_reg have "instances s2 (fst (cs ! j)) = Some x" by blast
      with Suc s' show ?thesis by simp
    qed
  qed
  have 4: "\<forall>u. instances s' u \<noteq> None \<longrightarrow>
      instances s u \<noteq> None \<or>
      (\<exists>i<length (c # cs). fst ((c # cs) ! i) = u \<and> (\<exists>x. rs ! i = Inr x))"
  proof (intro allI impI)
    fix u
    assume "instances s' u \<noteq> None"
    then have "instances s2 u \<noteq> None" by (simp add: s')
    with r_new have "instances s1 u \<noteq> None \<or>
        (\<exists>i<length cs. fst (cs ! i) = u \<and> (\<exists>x. rs1 ! i = Inr x))"
      by blast
    then show "instances s u \<noteq> None \<or>
      (\<exists>i<length (c # cs). fst ((c # cs) ! i) = u \<and> (\<exists>x. rs ! i = Inr x))"
    proof
      assume "instances s1 u \<noteq> None"
      with o_new have "instances s u \<noteq> None \<or> (u = url \<and> (\<exists>x. r = Inr x))"
        by blast
      then show ?thesis
      proof
        assume "instances s u \<noteq> None"
        then show ?thesis by (rule disjI1)
      next
        assume "u = url \<and> (\<exists>x. r = Inr x)"
        with c rs have "0 < length (c # cs) \<and> fst ((c # cs) ! 0) = u \<and> (\<exists>x. rs ! 0 = Inr x)"
          by simp
        then have "\<exists>i<length (c # cs). fst ((c # cs) ! i) = u \<and> (\<exists>x. rs ! i = Inr x)"
          by (rule exI [of _ 0])
        then show ?thesis by (rule disjI2)
      qed
    next
      assume "\<exists>i<length cs. fst (cs ! i) = u \<and> (\<exists>x. rs1 ! i = Inr x)"
      then obtain j where "j < length cs \<and> fst (cs ! j) = u \<and> (\<exists>x. rs1 ! j = Inr x)"
        by (elim exE)
      with rs have "Suc j < length (c # cs) \<and> fst ((c # cs) ! Suc j) = u \<and>
          (\<exists>x. rs ! Suc j = Inr x)"
        by simp
      then have "\<exists>i<length (c # cs). fst ((c # cs) ! i) = u \<and> (\<exists>x. rs ! i = Inr x)"
        by (rule exI [of _ "Suc j"])
      then show ?thesis by (rule disjI2)
    qed
  qed
  have 5: "(\<forall>k u t. F k u t = None) \<longrightarrow> (\<forall>i<length (c # cs). \<exists>x. rs ! i = Inr x)"
  proof (intro allI impI)
    fix i
    assume nf: "\<forall>k u t. F k u t = None" and i: "i < length (c # cs)"
    show "\<exists>x. rs ! i = Inr x"
    proof (cases i)
      case 0
      from o_ok nf have "\<exists>x. r = Inr x" by blast
      with 0 rs show ?thesis by simp
    next
      case (Suc j)
      with i have "j < length cs" by simp
      moreover from r_ok nf have "\<forall>i<length cs. \<exists>x. rs1 ! i = Inr x" by blast
      ultimately have "\<exists>x. rs1 ! j = Inr x" by blast
      with Suc rs show ?thesis by simp
    qed
  qed
  from 1 2 3 4 5 show ?case
    by (intro conjI)
qed

text \<open>
  C1. For every sequence of calls of \<^verbatim>\<open>get_instance\<close> from the empty registry, one
  after the other: any two calls for the same url that return, return the same adapter;
  and the number of clients built for a url is one when some call for it has returned
  and none otherwise, however many calls there were. When building a client never
  raises, every call returns.
\<close>

theorem one_adapter_per_url:
  assumes "get_instance_calls F cs initial_state = (rs, s')"
  shows "length rs = length cs \<and>
         (\<forall>i<length cs. \<forall>j<length cs. \<forall>a b.
            fst (cs ! i) = fst (cs ! j) \<longrightarrow> rs ! i = Inr a \<longrightarrow> rs ! j = Inr b \<longrightarrow> a = b) \<and>
         (\<forall>url. clients_for url s' =
            (if \<exists>i<length cs. fst (cs ! i) = url \<and> (\<exists>a. rs ! i = Inr a) then 1 else 0)) \<and>
         ((\<forall>k u t. F k u t = None) \<longrightarrow> (\<forall>i<length cs. \<exists>a. rs ! i = Inr a))"
proof -
  have inv0: "\<forall>u. clients_for u initial_state = (if instances initial_state u = None then 0 else 1)"
    by (simp add: initial_state_def clients_for_def)
  note all = get_instance_calls_inv [OF assms inv0]
  from all have inv: "\<forall>u. clients_for u s' = (if instances s' u = None then 0 else 1)"
    by (elim conjE)
  from all have reg: "\<forall>i<length cs. \<forall>x. rs ! i = Inr x \<longrightarrow>
      instances s' (fst (cs ! i)) = Some x"
    by (elim conjE)
  from all have new: "\<forall>u. instances s' u \<noteq> None \<longrightarrow>
      instances initial_state u \<noteq> None \<or>
      (\<exists>i<length cs. fst (cs ! i) = u \<and> (\<exists>x. rs ! i = Inr x))"
    by (elim conjE)
  from all have ok: "(\<forall>k u t. F k u t = None) \<longrightarrow> (\<forall>i<length cs. \<exists>x. rs ! i = Inr x)"
    by (elim conjE)
  have same: "\<forall>i<length cs. \<forall>j<length cs. \<forall>a b.
      fst (cs ! i) = fst (cs ! j) \<longrightarrow> rs ! i = Inr a \<longrightarrow> rs ! j = Inr b \<longrightarrow> a = b"
  proof (intro allI impI)
    fix i j a b
    assume i: "i < length cs" and j: "j < length cs" and u: "fst (cs ! i) = fst (cs ! j)"
      and a: "rs ! i = Inr a" and b: "rs ! j = Inr b"
    from reg i a have "instances s' (fst (cs ! i)) = Some a" by blast
    moreover from reg j b have "instances s' (fst (cs ! j)) = Some b" by blast
    ultimately show "a = b" using u by simp
  qed
  have count: "\<forall>url. clients_for url s' =
      (if \<exists>i<length cs. fst (cs ! i) = url \<and> (\<exists>a. rs ! i = Inr a) then 1 else 0)"
  proof
    fix url
    show "clients_for url s' =
      (if \<exists>i<length cs. fst (cs ! i) = url \<and> (\<exists>a. rs ! i = Inr a) then 1 else 0)"
    proof (cases "instances s' url = None")
      case True
      have "\<not> (\<exists>i<length cs. fst (cs ! i) = url \<and> (\<exists>a. rs ! i = Inr a))"
      proof
        assume "\<exists>i<length cs. fst (cs ! i) = url \<and> (\<exists>a. rs ! i = Inr a)"
        then obtain i a where i: "i < length cs" and "fst (cs ! i) = url" "rs ! i = Inr a"
          by blast
        with reg have "instances s' url = Some a" by blast
        with True show False by simp
      qed
      moreover from inv True have "clients_for url s' = 0" by simp
      ultimately show ?thesis by simp
    next
      case False
      with new have "instances initial_state url \<noteq> None \<or>
          (\<exists>i<length cs. fst (cs ! i) = url \<and> (\<exists>x. rs ! i = Inr x))"
        by blast
      then have "\<exists>i<length cs. fst (cs ! i) = url \<and> (\<exists>x. rs ! i = Inr x)"
        by (simp add: initial_state_def)
      moreover from inv False have "clients_for url s' = 1" by simp
      ultimately show ?thesis by simp
    qed
  qed
  from get_instance_calls_length [OF assms] same count ok show ?thesis
    by (intro conjI)
qed

theorem one_adapter_per_url_witness:
  "get_instance_calls no_faults
       [(''http://node'', 10), (''http://other'', 5), (''http://node'', 20)] initial_state =
     ([Inr 0, Inr 1, Inr 0], three_calls_state) \<and>
   length [Inr 0, Inr 1, Inr (0 :: nat) :: exc + nat] =
     length [(''http://node'', 10 :: int), (''http://other'', 5), (''http://node'', 20)] \<and>
   clients_for ''http://node'' three_calls_state = 1 \<and>
   clients_for ''http://other'' three_calls_state = 1 \<and>
   clients_for ''http://none'' three_calls_state = 0 \<and>
   adapters three_calls_state =
     [\<lparr>rpc_url = ''http://node'', request_timeout = 10, w3 = 0\<rparr>,
      \<lparr>rpc_url = ''http://other'', request_timeout = 5, w3 = 1\<rparr>]"
proof -
  let ?cs = "[(''http://node'', 10 :: int), (''http://other'', 5), (''http://node'', 20)]"
  have run: "get_instance_calls no_faults ?cs initial_state =
     ([Inr 0, Inr 1, Inr 0], three_calls_state)"
    by (simp add: three_calls_state_def get_instance_def AsyncWeb3Adapter_init_def
        create_client_def logger_info_def Let_def initial_state_def no_faults_def)
  note t = one_adapter_per_url [OF run]
  from t have l: "length [Inr 0, Inr 1, Inr (0 :: nat) :: exc + nat] = length ?cs"
    by (elim conjE)
  from t have c: "\<forall>url. clients_for url three_calls_state =
      (if \<exists>i<length ?cs. fst (?cs ! i) = url \<and>
            (\<exists>a. [Inr 0, Inr 1, Inr 0 :: exc + nat] ! i = Inr a) then 1 else 0)"
    by (elim conjE)
  have e0: "\<exists>i<length ?cs. fst (?cs ! i) = ''http://node'' \<and>
            (\<exists>a. [Inr 0, Inr 1, Inr 0 :: exc + nat] ! i = Inr a)"
    by (intro exI [of _ 0]) simp
  have e1: "\<exists>i<length ?cs. fst (?cs ! i) = ''http://other'' \<and>
            (\<exists>a. [Inr 0, Inr 1, Inr 0 :: exc + nat] ! i = Inr a)"
    by (intro exI [of _ 1]) simp
  have e2: "\<not> (\<exists>i<length ?cs. fst (?cs ! i) = ''http://none'' \<and>
            (\<exists>a. [Inr 0, Inr 1, Inr 0 :: exc + nat] ! i = Inr a))"
  proof (intro notI, elim exE conjE)
    fix i a
    assume "i < length ?cs" and u: "fst (?cs ! i) = ''http://none''"
    then have "i = 0 \<or> i = 1 \<or> i = 2"
      by auto
    with u show False
      by auto
  qed
  from c e0 have 1: "clients_for ''http://node'' three_calls_state = 1"
    by (simp only: if_True)
  from c e1 have 2: "clients_for ''http://other'' three_calls_state = 1"
    by (simp only: if_True)
  from c e2 have 3: "clients_for ''http://none'' three_calls_state = 0"
    by (simp only: if_False)
  have 4: "adapters three_calls_state =
     [\<lparr>rpc_url = ''http://node'', request_timeout = 10, w3 = 0\<rparr>,
      \<lparr>rpc_url = ''http://other'', request_timeout = 5, w3 = 1\<rparr>]"
    by (simp add: three_calls_state_def)
  from run l 1 2 3 4 show ?thesis
    by (intro conjI)
qed

end
